theory Spec2Isabelle
  imports Main
begin

section \<open>The reduction engine of \<^verbatim>\<open>numpy/core/src/umath/reduction.c\<close>\<close>

text \<open>
  The file holds three functions: \<^verbatim>\<open>count_axes\<close>,
  \<^verbatim>\<open>PyArray_CopyInitialReduceValues\<close> (the seeder of a reduction without identity)
  and \<^verbatim>\<open>PyUFunc_ReduceWrapper\<close> (the driver). They are embedded below, statement by
  statement. Everything they call that lives outside the file (the iterator, the array
  constructor, the copy and fill primitives, the accumulation callback, the floating-point
  status check) is a parameter of the model: a field of the record \<open>ext\<close>, an arbitrary
  function on the world. What the engine asks of these collaborators is recorded in a
  ghost list of calls, so that a theorem can speak about the arguments the engine passes.

  A C pointer to an array is an address; \<^verbatim>\<open>NULL\<close> is \<open>None\<close>. The engine reads an
  array's header through its pointer (\<open>the (heap w p)\<close>); the theorems say of each
  pointer they need that it is valid. A function that fails returns \<open>-1\<close> or \<^verbatim>\<open>NULL\<close>
  and leaves its error in the error indicator, as in C.
\<close>

subsection \<open>Machine integers\<close>

text \<open>
  \<^verbatim>\<open>npy_intp\<close> is a signed 64-bit integer and \<^verbatim>\<open>int\<close> a signed 32-bit integer (the
  LP64 and LLP64 data models). Values are kept as \<open>int\<close>, with the two's complement
  wrap-around written out where the source multiplies (\<^verbatim>\<open>size *= shape_orig[idim]\<close>) or
  converts (\<^verbatim>\<open>return size\<close> from a function that returns \<^verbatim>\<open>int\<close>). Ranks and axis
  counts are at most \<^verbatim>\<open>NPY_MAXDIMS\<close> and are natural numbers.
\<close>

definition wrap_signed :: "nat \<Rightarrow> int \<Rightarrow> int" where
  "wrap_signed w x = (x + 2 ^ (w - 1)) mod 2 ^ w - 2 ^ (w - 1)"

definition to_npy_intp :: "int \<Rightarrow> int" where
  "to_npy_intp x = wrap_signed 64 x"

definition to_c_int :: "int \<Rightarrow> int" where
  "to_c_int x = wrap_signed 32 x"

subsection \<open>Arrays, the world and the error indicator\<close>

type_synonym addr = nat
type_synonym descr = nat
type_synonym iter = nat

datatype array_flag = NPY_ARRAY_WRITEABLE | NPY_ARRAY_ALIGNED | NPY_ARRAY_OWNDATA

text \<open>
  The fields of an array object that the engine reads: \<^verbatim>\<open>PyArray_SHAPE\<close>,
  \<^verbatim>\<open>PyArray_STRIDES\<close>, \<^verbatim>\<open>PyArray_DESCR\<close>, \<^verbatim>\<open>PyArray_DATA\<close>; \<^verbatim>\<open>PyArray_NDIM\<close>
  is the length of the shape.
\<close>

record PyArrayObject =
  shape :: "int list"
  strides :: "int list"
  descr :: descr
  data :: int
  flags :: "array_flag set"

definition PyArray_NDIM :: "PyArrayObject \<Rightarrow> nat" where
  "PyArray_NDIM a = length (shape a)"

text \<open>The Python error indicator holds an exception type and its message.\<close>

datatype pyerr = PyErr string string

text \<open>
  The world: the array objects by address, the error indicator, and \<open>extra\<close>, all the
  state that belongs to the collaborators (element storage, iterator cursors, the
  floating-point status flags). The engine itself reads \<open>heap\<close> and reads and writes
  \<open>pyerr\<close>; it reaches \<open>extra\<close> only through a collaborator.
\<close>

record 'x world =
  heap :: "addr \<Rightarrow> PyArrayObject option"
  pyerr :: "pyerr option"
  extra :: 'x

subsection \<open>What is passed to the iterator\<close>

datatype iter_flag =
    NPY_ITER_BUFFERED | NPY_ITER_EXTERNAL_LOOP | NPY_ITER_GROWINNER
  | NPY_ITER_DONT_NEGATE_STRIDES | NPY_ITER_ZEROSIZE_OK | NPY_ITER_REFS_OK
  | NPY_ITER_DELAY_BUFALLOC | NPY_ITER_COPY_IF_OVERLAP

datatype op_flag =
    NPY_ITER_READWRITE | NPY_ITER_READONLY | NPY_ITER_WRITEONLY
  | NPY_ITER_ALIGNED | NPY_ITER_ALLOCATE | NPY_ITER_NO_SUBTYPE | NPY_ITER_NO_BROADCAST

datatype NPY_ORDER = NPY_ANYORDER | NPY_CORDER | NPY_FORTRANORDER | NPY_KEEPORDER

datatype NPY_CASTING =
    NPY_NO_CASTING | NPY_EQUIV_CASTING | NPY_SAFE_CASTING
  | NPY_SAME_KIND_CASTING | NPY_UNSAFE_CASTING

text \<open>
  Modelled from the spec: the macro \<^verbatim>\<open>NPY_ITER_REDUCTION_AXIS\<close> is declared in a header
  that is not part of the source at hand. The spec describes an entry of the axis mapping
  as either the ordinal of an output axis or a reduction-axis marker carrying an ordinal
  (\<open>-1\<close> when the axis is absent from the output).
\<close>

datatype op_axis = Axis int | NPY_ITER_REDUCTION_AXIS int

record iter_request =
  nop :: nat
  op :: "addr option list"
  it_flags :: "iter_flag set"
  order :: NPY_ORDER
  casting_rule :: NPY_CASTING
  op_flags :: "op_flag set list"
  op_dtypes :: "descr list"
  oa_ndim :: nat
  op_axes :: "op_axis list option list"
  itershape :: "int list option"
  iter_buffersize :: int

subsection \<open>The collaborators\<close>

text \<open>
  Each collaborator takes the world and returns its C result with the new world. A
  pointer result is an \<open>option\<close> (\<open>None\<close> is \<^verbatim>\<open>NULL\<close>); an \<^verbatim>\<open>int\<close> status is an
  \<open>int\<close>; \<^verbatim>\<open>NPY_SUCCEED\<close>/\<^verbatim>\<open>NPY_FAIL\<close> is a \<open>bool\<close>. The pointers that
  \<^verbatim>\<open>NpyIter_GetDataPtrArray\<close>, \<^verbatim>\<open>NpyIter_GetInnerStrideArray\<close> and
  \<^verbatim>\<open>NpyIter_GetInnerLoopSizePtr\<close> return are only handed on to the callback, which
  receives the iterator here. Reference counts are not modelled, apart from the two
  \<^verbatim>\<open>Py_DECREF\<close> that release an object.
\<close>

record ('v, 'x) ext =
  NpyIter_AdvancedNew :: "iter_request \<Rightarrow> 'x world \<Rightarrow> iter option \<times> 'x world"
  NpyIter_GetOperandArray :: "iter \<Rightarrow> 'x world \<Rightarrow> addr list"
  NpyIter_IterationNeedsAPI :: "iter \<Rightarrow> 'x world \<Rightarrow> bool"
  npy_clear_floatstatus_barrier :: "'x world \<Rightarrow> 'x world"
  PyArray_FillWithScalar :: "addr \<Rightarrow> 'v \<Rightarrow> 'x world \<Rightarrow> int \<times> 'x world"
  PyArray_NewFromDescr ::
    "descr \<Rightarrow> nat \<Rightarrow> int list \<Rightarrow> int list \<Rightarrow> int \<Rightarrow> array_flag set \<Rightarrow> 'x world
       \<Rightarrow> addr option \<times> 'x world"
  PyArray_CopyInto :: "addr \<Rightarrow> addr \<Rightarrow> 'x world \<Rightarrow> int \<times> 'x world"
  Py_DECREF :: "addr \<Rightarrow> 'x world \<Rightarrow> 'x world"
  NpyIter_Reset :: "iter \<Rightarrow> 'x world \<Rightarrow> bool \<times> 'x world"
  NpyIter_GetIterSize :: "iter \<Rightarrow> 'x world \<Rightarrow> int"
  NpyIter_GetIterNext :: "iter \<Rightarrow> 'x world \<Rightarrow> bool \<times> 'x world"
  check_ufunc_fperr :: "int \<Rightarrow> 'x world \<Rightarrow> int \<times> 'x world"
  NpyIter_Deallocate :: "iter \<Rightarrow> 'x world \<Rightarrow> bool \<times> 'x world"

text \<open>
  The accumulation callback \<^verbatim>\<open>loop\<close>: the iterator, \<^verbatim>\<open>needs_api\<close>,
  \<^verbatim>\<open>skip_first_count\<close> and \<^verbatim>\<open>data\<close>.
\<close>

type_synonym 'x reduce_loop = "iter \<Rightarrow> bool \<Rightarrow> int \<Rightarrow> nat \<Rightarrow> 'x world \<Rightarrow> int \<times> 'x world"

subsection \<open>The ghost list of calls\<close>

datatype 'v call =
    Call_NpyIter_AdvancedNew iter_request
  | Call_npy_clear_floatstatus_barrier
  | Call_PyArray_FillWithScalar addr 'v
  | Call_PyArray_NewFromDescr descr nat "int list" "int list" int "array_flag set"
  | Call_PyArray_CopyInto addr addr
  | Call_Py_DECREF addr
  | Call_NpyIter_Reset iter
  | Call_NpyIter_GetIterNext iter
  | Call_loop iter bool int nat
  | Call_check_ufunc_fperr int
  | Call_NpyIter_Deallocate iter

record ('v, 'x) state =
  W :: "'x world"
  calls :: "'v call list"

definition logged :: "'v call \<Rightarrow> ('x world \<Rightarrow> 'r \<times> 'x world) \<Rightarrow> ('v, 'x) state
    \<Rightarrow> 'r \<times> ('v, 'x) state" where
  "logged c f s = (case f (W s) of (r, w) \<Rightarrow> (r, \<lparr>W = w, calls = calls s @ [c]\<rparr>))"

definition logged_unit :: "'v call \<Rightarrow> ('x world \<Rightarrow> 'x world) \<Rightarrow> ('v, 'x) state
    \<Rightarrow> ('v, 'x) state" where
  "logged_unit c f s = \<lparr>W = f (W s), calls = calls s @ [c]\<rparr>"

subsection \<open>Error messages\<close>

definition digit_char :: "nat \<Rightarrow> char" where
  "digit_char n = ''0123456789'' ! n"

fun show_nat :: "nat \<Rightarrow> string" where
  "show_nat n = (if n < 10 then [digit_char n]
                 else show_nat (n div 10) @ [digit_char (n mod 10)])"

definition PyErr_Format :: "string \<Rightarrow> string \<Rightarrow> ('v, 'x) state \<Rightarrow> ('v, 'x) state" where
  "PyErr_Format exc msg s = s\<lparr>W := (W s)\<lparr>pyerr := Some (PyErr exc msg)\<rparr>\<rparr>"

definition PyErr_Occurred :: "('v, 'x) state \<Rightarrow> bool" where
  "PyErr_Occurred s = (pyerr (W s) \<noteq> None)"

definition msg_zero_size :: "string \<Rightarrow> string" where
  "msg_zero_size funcname =
     ''zero-size array to reduction operation '' @ funcname @ '' which has no identity''"

definition msg_not_reorderable :: "string \<Rightarrow> string" where
  "msg_not_reorderable funcname =
     ''reduction operation '' @ [CHR 0x27] @ funcname @ [CHR 0x27] @
     '' is not reorderable, so at most one axis may be specified''"

definition msg_where_no_identity :: "string \<Rightarrow> string" where
  "msg_where_no_identity funcname =
     ''reduction operation '' @ [CHR 0x27] @ funcname @ [CHR 0x27] @
     '' does not have an identity, so to use a where mask one has to specify '' @
     [CHR 0x27] @ ''initial'' @ [CHR 0x27]"

definition msg_out_ndim :: "string \<Rightarrow> nat \<Rightarrow> nat \<Rightarrow> string" where
  "msg_out_ndim funcname found expected =
     ''output parameter for reduction operation '' @ funcname @
     '' has the wrong number of dimensions: Found '' @ show_nat found @
     '' but expected '' @ show_nat expected"

definition msg_out_ndim_keepdims :: "string \<Rightarrow> nat \<Rightarrow> nat \<Rightarrow> string" where
  "msg_out_ndim_keepdims funcname found expected =
     msg_out_ndim funcname found expected @
     '' (must match the operand'' @ [CHR 0x27] @ ''s when keepdims=True)''"

text \<open>The error kinds of the spec are the four \<^verbatim>\<open>ValueError\<close>s the file raises.\<close>

definition EmptyReductionError :: "string \<Rightarrow> pyerr" where
  "EmptyReductionError funcname = PyErr ''ValueError'' (msg_zero_size funcname)"

definition NonReorderableMultiAxisError :: "string \<Rightarrow> pyerr" where
  "NonReorderableMultiAxisError funcname = PyErr ''ValueError'' (msg_not_reorderable funcname)"

definition WhereWithoutIdentityError :: "string \<Rightarrow> pyerr" where
  "WhereWithoutIdentityError funcname = PyErr ''ValueError'' (msg_where_no_identity funcname)"

definition OutputShapeMismatchError :: "string \<Rightarrow> bool \<Rightarrow> nat \<Rightarrow> nat \<Rightarrow> pyerr" where
  "OutputShapeMismatchError funcname keepdims found expected =
     PyErr ''ValueError''
       (if keepdims then msg_out_ndim_keepdims funcname found expected
        else msg_out_ndim funcname found expected)"

subsection \<open>\<^verbatim>\<open>count_axes\<close>\<close>

text \<open>The loop \<^verbatim>\<open>for (idim = 0; idim < ndim; ++idim)\<close> runs over \<open>[0..<ndim]\<close>.\<close>

fun count_axes_loop :: "bool list \<Rightarrow> nat list \<Rightarrow> nat \<Rightarrow> nat" where
  "count_axes_loop axis_flags [] naxes = naxes"
| "count_axes_loop axis_flags (idim # rest) naxes =
     (if axis_flags ! idim then count_axes_loop axis_flags rest (naxes + 1)
      else count_axes_loop axis_flags rest naxes)"

definition count_axes :: "nat \<Rightarrow> bool list \<Rightarrow> nat" where
  "count_axes ndim axis_flags = count_axes_loop axis_flags [0..<ndim] 0"

subsection \<open>\<^verbatim>\<open>PyArray_CopyInitialReduceValues\<close>\<close>

text \<open>
  The loop of lines 93 to 113. The local arrays \<^verbatim>\<open>shape\<close> and \<^verbatim>\<open>strides\<close> are filled
  from index 0 upwards, so they are the lists built so far and \<^verbatim>\<open>idim_out\<close> is their
  length. \<open>None\<close> is the early return at a reduced axis of extent 0.
\<close>

fun seed_loop :: "bool list \<Rightarrow> int list \<Rightarrow> int list \<Rightarrow> bool \<Rightarrow> nat list
    \<Rightarrow> int list \<times> int list \<times> int \<Rightarrow> (int list \<times> int list \<times> int) option" where
  "seed_loop axis_flags shape_orig strides_orig keepdims [] acc = Some acc"
| "seed_loop axis_flags shape_orig strides_orig keepdims (idim # rest) (shp, strd, sz) =
     (if axis_flags ! idim then
        if shape_orig ! idim = 0 then None
        else if keepdims then
          seed_loop axis_flags shape_orig strides_orig keepdims rest
            (shp @ [1], strd @ [0], sz)
        else
          seed_loop axis_flags shape_orig strides_orig keepdims rest (shp, strd, sz)
      else
        seed_loop axis_flags shape_orig strides_orig keepdims rest
          (shp @ [shape_orig ! idim], strd @ [strides_orig ! idim],
           to_npy_intp (sz * shape_orig ! idim)))"

text \<open>
  The function returns \<^verbatim>\<open>int\<close>: \<open>-1\<close> on an error, otherwise \<^verbatim>\<open>size\<close> (here
  \<open>sz\<close>) converted from \<^verbatim>\<open>npy_intp\<close> to \<^verbatim>\<open>int\<close>. The view is built with the flags
  argument 0, the empty set of array flags.
\<close>

definition PyArray_CopyInitialReduceValues ::
  "('v, 'x) ext \<Rightarrow> addr \<Rightarrow> addr \<Rightarrow> bool list \<Rightarrow> string \<Rightarrow> bool \<Rightarrow> ('v, 'x) state
     \<Rightarrow> int \<times> ('v, 'x) state" where
  "PyArray_CopyInitialReduceValues E result operand axis_flags funcname keepdims s =
     (let opnd = the (heap (W s) operand);
          ndim = PyArray_NDIM opnd
      in case seed_loop axis_flags (shape opnd) (strides opnd) keepdims [0..<ndim] ([], [], 1) of
           None \<Rightarrow> (- 1, PyErr_Format ''ValueError'' (msg_zero_size funcname) s)
         | Some (shp, strd, sz) \<Rightarrow>
             (case logged (Call_PyArray_NewFromDescr (descr opnd) (length shp) shp strd
                             (data opnd) {})
                     (PyArray_NewFromDescr E (descr opnd) (length shp) shp strd (data opnd) {}) s of
                (None, s1) \<Rightarrow> (- 1, s1)
              | (Some op_view, s1) \<Rightarrow>
                  (case logged (Call_PyArray_CopyInto result op_view)
                          (PyArray_CopyInto E result op_view) s1 of
                     (res, s2) \<Rightarrow>
                       let s3 = logged_unit (Call_Py_DECREF op_view) (Py_DECREF E op_view) s2
                       in if res < 0 then (- 1, s3) else (to_c_int sz, s3))))"

subsection \<open>\<^verbatim>\<open>PyUFunc_ReduceWrapper\<close>\<close>

text \<open>The parameters of the driver, under their names in the source.\<close>

record 'v reduce_args =
  operand :: addr
  out :: "addr option"
  wheremask :: "addr option"
  operand_dtype :: descr
  result_dtype :: descr
  casting :: NPY_CASTING
  axis_flags :: "bool list"
  reorderable :: bool
  keepdims :: bool
  identity :: "'v option"
  loop_data :: nat
  buffersize :: int
  funcname :: string
  errormask :: int

text \<open>The loop of lines 258 to 272: the axis mapping of the result and \<^verbatim>\<open>curr_axis\<close>.\<close>

fun result_axes_loop :: "bool list \<Rightarrow> bool \<Rightarrow> nat list \<Rightarrow> op_axis list \<times> nat
    \<Rightarrow> op_axis list \<times> nat" where
  "result_axes_loop flgs kd [] acc = acc"
| "result_axes_loop flgs kd (i # rest) (result_axes, curr_axis) =
     (if flgs ! i then
        if kd then
          result_axes_loop flgs kd rest
            (result_axes @ [NPY_ITER_REDUCTION_AXIS (int curr_axis)], curr_axis + 1)
        else
          result_axes_loop flgs kd rest (result_axes @ [NPY_ITER_REDUCTION_AXIS (- 1)], curr_axis)
      else
        result_axes_loop flgs kd rest (result_axes @ [Axis (int curr_axis)], curr_axis + 1))"

text \<open>Lines 222 to 252 and 293 to 297: the arguments of \<^verbatim>\<open>NpyIter_AdvancedNew\<close>.\<close>

definition reduce_request :: "'x world \<Rightarrow> 'v reduce_args \<Rightarrow> op_axis list \<Rightarrow> iter_request" where
  "reduce_request w a result_axes =
     \<lparr>nop = (if wheremask a = None then 2 else 3),
      op = [out a, Some (operand a)] @
           (case wheremask a of None \<Rightarrow> [] | Some m \<Rightarrow> [Some m]),
      it_flags = {NPY_ITER_BUFFERED, NPY_ITER_EXTERNAL_LOOP, NPY_ITER_GROWINNER,
                  NPY_ITER_DONT_NEGATE_STRIDES, NPY_ITER_ZEROSIZE_OK, NPY_ITER_REFS_OK,
                  NPY_ITER_DELAY_BUFALLOC, NPY_ITER_COPY_IF_OVERLAP},
      order = NPY_KEEPORDER,
      casting_rule = casting a,
      op_flags = [{NPY_ITER_READWRITE, NPY_ITER_ALIGNED, NPY_ITER_ALLOCATE, NPY_ITER_NO_SUBTYPE},
                  {NPY_ITER_READONLY, NPY_ITER_ALIGNED, NPY_ITER_NO_BROADCAST}] @
                 (case wheremask a of None \<Rightarrow> [] | Some m \<Rightarrow> [{NPY_ITER_READONLY}]),
      op_dtypes = [result_dtype a, operand_dtype a] @
                  (case wheremask a of None \<Rightarrow> [] | Some m \<Rightarrow> [descr (the (heap w m))]),
      oa_ndim = PyArray_NDIM (the (heap w (operand a))),
      op_axes = [Some result_axes, None] @
                (case wheremask a of None \<Rightarrow> [] | Some m \<Rightarrow> [None]),
      itershape = None,
      iter_buffersize = buffersize a\<rparr>"

text \<open>The label \<^verbatim>\<open>fail\<close> once the iterator exists (lines 371 to 376).\<close>

definition reduce_fail :: "('v, 'x) ext \<Rightarrow> iter \<Rightarrow> ('v, 'x) state
    \<Rightarrow> addr option \<times> ('v, 'x) state" where
  "reduce_fail E it s =
     (None, snd (logged (Call_NpyIter_Deallocate it) (NpyIter_Deallocate E it) s))"

text \<open>Lines 354 to 369: the checks after the loop and the choice of the returned object.\<close>

definition reduce_finish :: "('v, 'x) ext \<Rightarrow> 'v reduce_args \<Rightarrow> iter \<Rightarrow> addr
    \<Rightarrow> ('v, 'x) state \<Rightarrow> addr option \<times> ('v, 'x) state" where
  "reduce_finish E a it result s =
     (if PyErr_Occurred s then reduce_fail E it s
      else case logged (Call_check_ufunc_fperr (errormask a))
                  (check_ufunc_fperr E (errormask a)) s of
        (rc, s1) \<Rightarrow>
          if rc < 0 then reduce_fail E it s1
          else
            let result' = (case out a of Some p \<Rightarrow> p | None \<Rightarrow> result)
            in case logged (Call_NpyIter_Deallocate it) (NpyIter_Deallocate E it) s1 of
                 (ok, s2) \<Rightarrow>
                   if \<not> ok then
                     (None, logged_unit (Call_Py_DECREF result') (Py_DECREF E result') s2)
                   else (Some result', s2))"

text \<open>Lines 330 to 352: reset the iterator and, unless it is empty, call \<^verbatim>\<open>loop\<close> once.\<close>

definition reduce_iterate :: "('v, 'x) ext \<Rightarrow> 'x reduce_loop \<Rightarrow> 'v reduce_args \<Rightarrow> iter
    \<Rightarrow> addr \<Rightarrow> bool \<Rightarrow> int \<Rightarrow> ('v, 'x) state \<Rightarrow> addr option \<times> ('v, 'x) state" where
  "reduce_iterate E loop a it result needs_api skip_first_count s =
     (case logged (Call_NpyIter_Reset it) (NpyIter_Reset E it) s of
        (ok, s1) \<Rightarrow>
          if \<not> ok then reduce_fail E it s1
          else if NpyIter_GetIterSize E it (W s1) \<noteq> 0 then
            (case logged (Call_NpyIter_GetIterNext it) (NpyIter_GetIterNext E it) s1 of
               (iternext, s2) \<Rightarrow>
                 if \<not> iternext then reduce_fail E it s2
                 else
                   (case logged (Call_loop it needs_api skip_first_count (loop_data a))
                           (loop it needs_api skip_first_count (loop_data a)) s2 of
                      (rc, s3) \<Rightarrow>
                        if rc < 0 then reduce_fail E it s3
                        else reduce_finish E a it result s3))
          else reduce_finish E a it result s1)"

text \<open>
  Lines 302 to 328: the result is the iterator's first operand; it is filled with the
  identity, or seeded by \<^verbatim>\<open>PyArray_CopyInitialReduceValues\<close>, whose \<^verbatim>\<open>int\<close> is stored
  in the \<^verbatim>\<open>npy_intp\<close> \<^verbatim>\<open>skip_first_count\<close>.
\<close>

definition reduce_seed :: "('v, 'x) ext \<Rightarrow> 'x reduce_loop \<Rightarrow> 'v reduce_args \<Rightarrow> iter
    \<Rightarrow> ('v, 'x) state \<Rightarrow> addr option \<times> ('v, 'x) state" where
  "reduce_seed E loop a it s =
     (let result = NpyIter_GetOperandArray E it (W s) ! 0;
          needs_api = NpyIter_IterationNeedsAPI E it (W s);
          s1 = logged_unit Call_npy_clear_floatstatus_barrier
                 (npy_clear_floatstatus_barrier E) s
      in case identity a of
           Some v \<Rightarrow>
             (case logged (Call_PyArray_FillWithScalar result v)
                     (PyArray_FillWithScalar E result v) s1 of
                (rc, s2) \<Rightarrow>
                  if rc < 0 then reduce_fail E it s2
                  else reduce_iterate E loop a it result needs_api 0 s2)
         | None \<Rightarrow>
             (case PyArray_CopyInitialReduceValues E result (operand a) (axis_flags a)
                     (funcname a) (keepdims a) s1 of
                (skip_first_count, s2) \<Rightarrow>
                  if skip_first_count < 0 then reduce_fail E it s2
                  else reduce_iterate E loop a it result needs_api skip_first_count s2))"

text \<open>
  The driver. The three checks of lines 204 to 218 and 273 to 291 return before the
  iterator exists, so \<^verbatim>\<open>fail\<close> has nothing to release there. The descriptor of a
  where-mask is a field of its array object and cannot be \<^verbatim>\<open>NULL\<close>, so the test of
  line 248 has no branch.
\<close>

definition PyUFunc_ReduceWrapper :: "('v, 'x) ext \<Rightarrow> 'x reduce_loop \<Rightarrow> 'v reduce_args
    \<Rightarrow> ('v, 'x) state \<Rightarrow> addr option \<times> ('v, 'x) state" where
  "PyUFunc_ReduceWrapper E loop a s =
     (let opnd = the (heap (W s) (operand a)) in
      if \<not> reorderable a \<and> count_axes (PyArray_NDIM opnd) (axis_flags a) > 1 then
        (None, PyErr_Format ''ValueError'' (msg_not_reorderable (funcname a)) s)
      else if wheremask a \<noteq> None \<and> identity a = None then
        (None, PyErr_Format ''ValueError'' (msg_where_no_identity (funcname a)) s)
      else
        case result_axes_loop (axis_flags a) (keepdims a) [0..<PyArray_NDIM opnd] ([], 0) of
          (result_axes, curr_axis) \<Rightarrow>
            if out a \<noteq> None \<and> curr_axis \<noteq> PyArray_NDIM (the (heap (W s) (the (out a)))) then
              (None,
               PyErr_Format ''ValueError''
                 (if keepdims a then
                    msg_out_ndim_keepdims (funcname a)
                      (PyArray_NDIM (the (heap (W s) (the (out a))))) curr_axis
                  else
                    msg_out_ndim (funcname a)
                      (PyArray_NDIM (the (heap (W s) (the (out a))))) curr_axis) s)
            else
              (case logged (Call_NpyIter_AdvancedNew (reduce_request (W s) a result_axes))
                      (NpyIter_AdvancedNew E (reduce_request (W s) a result_axes)) s of
                 (None, s1) \<Rightarrow> (None, s1)
               | (Some it, s1) \<Rightarrow> reduce_seed E loop a it s1))"

subsection \<open>A stand-in for the collaborators, to run the model on concrete inputs\<close>

text \<open>
  \<open>stub_ext r n\<close> always succeeds and leaves the world alone: the iterator it creates
  binds its first operand to the array at address \<open>r\<close> and has \<open>n\<close> elements to visit;
  the view it constructs lives at address 99.
\<close>

definition stub_ext :: "addr \<Rightarrow> int \<Rightarrow> (int, unit) ext" where
  "stub_ext r n =
     \<lparr>NpyIter_AdvancedNew = (\<lambda>req w. (Some 0, w)),
      NpyIter_GetOperandArray = (\<lambda>it w. [r]),
      NpyIter_IterationNeedsAPI = (\<lambda>it w. False),
      npy_clear_floatstatus_barrier = (\<lambda>w. w),
      PyArray_FillWithScalar = (\<lambda>dst v w. (0, w)),
      PyArray_NewFromDescr = (\<lambda>d nd shp strd dat fl w. (Some 99, w)),
      PyArray_CopyInto = (\<lambda>dst src w. (0, w)),
      Py_DECREF = (\<lambda>p w. w),
      NpyIter_Reset = (\<lambda>it w. (True, w)),
      NpyIter_GetIterSize = (\<lambda>it w. n),
      NpyIter_GetIterNext = (\<lambda>it w. (True, w)),
      check_ufunc_fperr = (\<lambda>m w. (0, w)),
      NpyIter_Deallocate = (\<lambda>it w. (True, w))\<rparr>"

definition stub_loop :: "unit reduce_loop" where
  "stub_loop it needs_api skip_first_count dat w = (0, w)"

definition mk_array :: "int list \<Rightarrow> int list \<Rightarrow> int \<Rightarrow> PyArrayObject" where
  "mk_array shp strd dat = \<lparr>shape = shp, strides = strd, descr = 7, data = dat, flags = {}\<rparr>"

definition mk_state :: "(addr \<times> PyArrayObject) list \<Rightarrow> (int, unit) state" where
  "mk_state objs = \<lparr>W = \<lparr>heap = map_of objs, pyerr = None, extra = ()\<rparr>, calls = []\<rparr>"

definition mk_args :: "addr \<Rightarrow> addr option \<Rightarrow> addr option \<Rightarrow> bool list \<Rightarrow> bool \<Rightarrow> bool
    \<Rightarrow> int option \<Rightarrow> int reduce_args" where
  "mk_args p o_ptr m flgs ro kd ident =
     \<lparr>operand = p, out = o_ptr, wheremask = m, operand_dtype = 7, result_dtype = 7,
      casting = NPY_UNSAFE_CASTING, axis_flags = flgs, reorderable = ro, keepdims = kd,
      identity = ident, loop_data = 0, buffersize = 0, funcname = ''max'', errormask = 0\<rparr>"

text \<open>
  One world for the examples: the operand of shape \<open>[2, 3]\<close> at address 1, output arrays
  of rank 1 and 3 at addresses 2 and 4, a where-mask at address 3.
\<close>

definition ex_state :: "(int, unit) state" where
  "ex_state = mk_state [(1, mk_array [2, 3] [3, 1] 1000), (2, mk_array [2] [1] 2000),
                        (3, mk_array [2, 3] [3, 1] 3000), (4, mk_array [2, 3, 1] [3, 1, 1] 4000)]"

text \<open>A world whose operand, at address 1, is empty: shape \<open>[3, 0]\<close>.\<close>

definition ex_empty_state :: "(int, unit) state" where
  "ex_empty_state = mk_state [(1, mk_array [3, 0] [0, 1] 1000), (2, mk_array [3] [1] 2000)]"

subsection \<open>Reading the list of calls\<close>

definition new_calls :: "('v, 'x) state \<Rightarrow> ('v, 'x) state \<Rightarrow> 'v call list" where
  "new_calls s s' = drop (length (calls s)) (calls s')"

text \<open>What the seeder may ask of its collaborators, given the result \<open>r\<close>.\<close>

fun seeder_call_ok :: "addr \<Rightarrow> 'v call \<Rightarrow> bool" where
  "seeder_call_ok r (Call_PyArray_NewFromDescr d nd shp strd dat fl) = (fl = {})"
| "seeder_call_ok r (Call_PyArray_CopyInto dst src) = (dst = r)"
| "seeder_call_ok r (Call_Py_DECREF p) = True"
| "seeder_call_ok r c = False"

text \<open>
  What the driver may ask once the iterator \<open>it\<close> exists and binds the result \<open>r\<close>.
\<close>

fun driver_call_ok :: "'v reduce_args \<Rightarrow> iter \<Rightarrow> addr \<Rightarrow> 'v call \<Rightarrow> bool" where
  "driver_call_ok a it r (Call_NpyIter_AdvancedNew req) = False"
| "driver_call_ok a it r Call_npy_clear_floatstatus_barrier = True"
| "driver_call_ok a it r (Call_PyArray_FillWithScalar dst v) = (dst = r \<and> identity a = Some v)"
| "driver_call_ok a it r (Call_PyArray_NewFromDescr d nd shp strd dat fl) =
     (identity a = None \<and> fl = {})"
| "driver_call_ok a it r (Call_PyArray_CopyInto dst src) = (identity a = None \<and> dst = r)"
| "driver_call_ok a it r (Call_Py_DECREF p) = True"
| "driver_call_ok a it r (Call_NpyIter_Reset i) = (i = it)"
| "driver_call_ok a it r (Call_NpyIter_GetIterNext i) = (i = it)"
| "driver_call_ok a it r (Call_loop i api k d) =
     (i = it \<and> d = loop_data a \<and> (identity a = None \<or> k = 0))"
| "driver_call_ok a it r (Call_check_ufunc_fperr m) = (m = errormask a)"
| "driver_call_ok a it r (Call_NpyIter_Deallocate i) = (i = it)"

subsection \<open>Notions used to state the properties\<close>

text \<open>The extents of the axes that are not reduced, in axis order.\<close>

definition non_reduced_extents :: "bool list \<Rightarrow> int list \<Rightarrow> int list" where
  "non_reduced_extents flgs shp = map ((!) shp) (filter (\<lambda>i. \<not> flgs ! i) [0..<length shp])"

text \<open>
  The entries that the seeder's loop writes for the axes \<open>is\<close>, read off a per-axis
  list \<open>xs\<close> (the extents or the strides): a kept axis contributes its own entry, a
  reduced axis the entry \<open>u\<close> under \<open>keepdims\<close> and nothing otherwise.
\<close>

definition view_entries :: "bool list \<Rightarrow> bool \<Rightarrow> int \<Rightarrow> int list \<Rightarrow> nat list \<Rightarrow> int list" where
  "view_entries flgs kd u xs is =
     concat (map (\<lambda>i. if flgs ! i then (if kd then [u] else []) else [xs ! i]) is)"

definition drop_axis :: "nat \<Rightarrow> 'a list \<Rightarrow> 'a list" where
  "drop_axis k xs = take k xs @ drop (Suc k) xs"

text \<open>
  The byte offset of the element at index \<open>idx\<close> in an array with strides \<open>strd\<close>, and
  the indices that are in range for a shape.
\<close>

definition offset :: "int list \<Rightarrow> nat list \<Rightarrow> int" where
  "offset strd idx = sum_list (map2 (\<lambda>st i. st * int i) strd idx)"

definition valid_index :: "int list \<Rightarrow> nat list \<Rightarrow> bool" where
  "valid_index shp idx = (length idx = length shp \<and> list_all2 (\<lambda>i n. int i < n) idx shp)"

text \<open>An operand of \<open>2^31\<close> rows of two one-byte elements, at address 1.\<close>

definition ex_big_state :: "(int, unit) state" where
  "ex_big_state = mk_state [(1, mk_array [2147483648, 2] [2, 1] 1000)]"

text \<open>An operand with a single element, at address 1.\<close>

definition ex_unit_state :: "(int, unit) state" where
  "ex_unit_state = mk_state [(1, mk_array [1] [8] 1000)]"

text \<open>The request that the driver hands to \<^verbatim>\<open>NpyIter_AdvancedNew\<close> in the world \<open>w\<close>.\<close>

definition driver_request :: "'x world \<Rightarrow> 'v reduce_args \<Rightarrow> iter_request" where
  "driver_request w a =
     reduce_request w a
       (fst (result_axes_loop (axis_flags a) (keepdims a)
               [0..<PyArray_NDIM (the (heap w (operand a)))] ([], 0)))"

text \<open>
  A property \<open>P\<close> of the world is kept by a collaborator when it holds after each call
  that started where it held. \<open>collaborators_keep P E loop p it r\<close> speaks of the
  collaborators as one call of the driver uses them, on the iterator \<open>it\<close> that the call
  created and on its result \<open>r\<close>: they keep \<open>P\<close>, the fill and the copy with the
  destination \<open>r\<close>, the view constructor for a view without flags, and a view is a new
  object, not the array at \<open>p\<close>, which is not released.
\<close>

definition keeps :: "('x world \<Rightarrow> bool) \<Rightarrow> ('x world \<Rightarrow> 'r \<times> 'x world) \<Rightarrow> bool" where
  "keeps P f = (\<forall>w. P w \<longrightarrow> P (snd (f w)))"

definition collaborators_keep ::
  "('x world \<Rightarrow> bool) \<Rightarrow> ('v, 'x) ext \<Rightarrow> 'x reduce_loop \<Rightarrow> addr \<Rightarrow> iter \<Rightarrow> addr \<Rightarrow> bool" where
  "collaborators_keep P E loop p it r =
     ((\<forall>w. P w \<longrightarrow> P (npy_clear_floatstatus_barrier E w))
      \<and> (\<forall>v. keeps P (PyArray_FillWithScalar E r v))
      \<and> (\<forall>d nd shp strd dat. keeps P (PyArray_NewFromDescr E d nd shp strd dat {}))
      \<and> (\<forall>d nd shp strd dat w. P w \<longrightarrow>
            fst (PyArray_NewFromDescr E d nd shp strd dat {} w) \<noteq> Some p)
      \<and> (\<forall>src. keeps P (PyArray_CopyInto E r src))
      \<and> (\<forall>x w. x \<noteq> p \<longrightarrow> P w \<longrightarrow> P (Py_DECREF E x w))
      \<and> keeps P (NpyIter_Reset E it)
      \<and> keeps P (NpyIter_GetIterNext E it)
      \<and> (\<forall>api k d. keeps P (loop it api k d))
      \<and> (\<forall>m. keeps P (check_ufunc_fperr E m))
      \<and> keeps P (NpyIter_Deallocate E it))"

subsection \<open>Element storage\<close>

text \<open>
  Modelled from the spec: the element storage and the primitives that write it (the
  fill, the copy, the view constructor) are not part of the source at hand. The spec
  gives an array a raw data pointer and strides that are byte offsets per axis, has the
  fill write a value to the entire result, and has the copy assign element by element.
  Here the storage is a memory from byte addresses to values, kept in the part of the
  world that belongs to the collaborators; the element at index \<open>idx\<close> lives at the
  data pointer plus \<open>offset strides idx\<close>, and the elements of an array are listed in
  index order, the last axis running fastest.
\<close>

record 'v store =
  mem :: "int \<Rightarrow> 'v"

fun all_indices :: "int list \<Rightarrow> nat list list" where
  "all_indices [] = [[]]"
| "all_indices (n # ns) = concat (map (\<lambda>i. map ((#) i) (all_indices ns)) [0..<nat n])"

definition cells_at :: "int list \<Rightarrow> int list \<Rightarrow> int \<Rightarrow> int list" where
  "cells_at shp strd dat = map (\<lambda>idx. dat + offset strd idx) (all_indices shp)"

definition elements_at :: "('v, 'y) store_scheme world \<Rightarrow> int list \<Rightarrow> int list \<Rightarrow> int \<Rightarrow> 'v list" where
  "elements_at w shp strd dat = map (mem (extra w)) (cells_at shp strd dat)"

definition cells_of :: "'x world \<Rightarrow> addr \<Rightarrow> int list" where
  "cells_of w q =
     (case heap w q of None \<Rightarrow> [] | Some arr \<Rightarrow> cells_at (shape arr) (strides arr) (data arr))"

definition elements_of :: "('v, 'y) store_scheme world \<Rightarrow> addr \<Rightarrow> 'v list" where
  "elements_of w q = map (mem (extra w)) (cells_of w q)"

text \<open>
  Collaborators with a memory, to run the model on element data. \<open>mem_ext r n\<close> is
  \<open>stub_ext r n\<close> except that the fill writes its value to every cell of its
  destination, the view constructor puts the view's header at address 99, and the copy
  assigns the elements of its source to the cells of its destination, in index order.
  \<open>idle_loop\<close> is a callback that folds nothing.
\<close>

definition write_cells :: "(int \<times> 'v) list \<Rightarrow> ('v, 'y) store_scheme world
    \<Rightarrow> ('v, 'y) store_scheme world" where
  "write_cells cvs w =
     w\<lparr>extra := (extra w)\<lparr>mem := (\<lambda>c. case map_of cvs c of
                                         Some e \<Rightarrow> e | None \<Rightarrow> mem (extra w) c)\<rparr>\<rparr>"

definition mem_ext :: "addr \<Rightarrow> int \<Rightarrow> (int, int store) ext" where
  "mem_ext r n =
     \<lparr>NpyIter_AdvancedNew = (\<lambda>req w. (Some 0, w)),
      NpyIter_GetOperandArray = (\<lambda>it w. [r]),
      NpyIter_IterationNeedsAPI = (\<lambda>it w. False),
      npy_clear_floatstatus_barrier = (\<lambda>w. w),
      PyArray_FillWithScalar =
        (\<lambda>dst v w. (0, write_cells (map (\<lambda>c. (c, v)) (cells_of w dst)) w)),
      PyArray_NewFromDescr =
        (\<lambda>d nd shp strd dat fl w.
           (Some 99, w\<lparr>heap := (heap w)(99 \<mapsto> \<lparr>shape = shp, strides = strd, descr = d,
                                               data = dat, flags = fl\<rparr>)\<rparr>)),
      PyArray_CopyInto =
        (\<lambda>dst src w. (0, write_cells (zip (cells_of w dst) (elements_of w src)) w)),
      Py_DECREF = (\<lambda>p w. w),
      NpyIter_Reset = (\<lambda>it w. (True, w)),
      NpyIter_GetIterSize = (\<lambda>it w. n),
      NpyIter_GetIterNext = (\<lambda>it w. (True, w)),
      check_ufunc_fperr = (\<lambda>m w. (0, w)),
      NpyIter_Deallocate = (\<lambda>it w. (True, w))\<rparr>"

definition idle_loop :: "int store reduce_loop" where
  "idle_loop it needs_api skip_first_count dat w = (0, w)"

definition mk_mem_state :: "(addr \<times> PyArrayObject) list \<Rightarrow> (int \<times> int) list
    \<Rightarrow> (int, int store) state" where
  "mk_mem_state objs cvs =
     \<lparr>W = \<lparr>heap = map_of objs, pyerr = None,
            extra = \<lparr>mem = (\<lambda>c. case map_of cvs c of Some e \<Rightarrow> e | None \<Rightarrow> 0)\<rparr>\<rparr>,
      calls = []\<rparr>"

text \<open>
  With memory: the column \<open>[5, 2, 9]\<close> of shape \<open>[3, 1]\<close> at address 1 and an output
  array of shape \<open>[3]\<close> at address 2, holding 7 everywhere.
\<close>

definition ex_col_mem :: "(int, int store) state" where
  "ex_col_mem = mk_mem_state [(1, mk_array [3, 1] [8, 8] 1000), (2, mk_array [3] [8] 2000)]
                  [(1000, 5), (1008, 2), (1016, 9), (2000, 7), (2008, 7), (2016, 7)]"

text \<open>
  With memory: an empty operand of shape \<open>[3, 0]\<close> at address 1 and an output array of
  shape \<open>[3]\<close> at address 2, holding 7 everywhere.
\<close>

definition ex_empty_mem :: "(int, int store) state" where
  "ex_empty_mem = mk_mem_state [(1, mk_array [3, 0] [0, 8] 1000), (2, mk_array [3] [8] 2000)]
                    [(2000, 7), (2008, 7), (2016, 7)]"

section \<open>Properties\<close>

subsection \<open>Unfolding the model\<close>

lemmas run_defs = PyUFunc_ReduceWrapper_def reduce_seed_def reduce_iterate_def reduce_finish_def
  reduce_fail_def reduce_request_def PyArray_CopyInitialReduceValues_def logged_def logged_unit_def
  PyErr_Format_def PyErr_Occurred_def count_axes_def PyArray_NDIM_def new_calls_def
  to_c_int_def to_npy_intp_def wrap_signed_def

lemmas ex_defs = stub_ext_def stub_loop_def mk_array_def mk_state_def mk_args_def ex_state_def
  ex_empty_state_def ex_big_state_def ex_unit_state_def

lemmas err_defs = EmptyReductionError_def NonReorderableMultiAxisError_def
  WhereWithoutIdentityError_def OutputShapeMismatchError_def msg_zero_size_def
  msg_not_reorderable_def msg_where_no_identity_def msg_out_ndim_def msg_out_ndim_keepdims_def

subsection \<open>The loops over the axes\<close>

lemma count_axes_loop_filter:
  "count_axes_loop fl is k = k + length (filter (\<lambda>i. fl ! i) is)"
  by (induction "is" arbitrary: k) auto

lemma filter_nth_upt: "length (filter (\<lambda>i. fl ! i) [0..<length fl]) = length (filter id fl)"
proof -
  have "filter id (map ((!) fl) [0..<length fl]) = map ((!) fl) (filter (id \<circ> (!) fl) [0..<length fl])"
    by (rule filter_map)
  then have "length (filter id fl) = length (filter (id \<circ> (!) fl) [0..<length fl])"
    by (simp add: map_nth)
  then show ?thesis by (simp add: comp_def)
qed

lemma count_axes_eq: "length fl = n \<Longrightarrow> count_axes n fl = length (filter id fl)"
  using filter_nth_upt [of fl] by (simp add: count_axes_def count_axes_loop_filter)

lemma result_axes_loop_snd:
  "snd (result_axes_loop fl kd is (ax, c)) = c + length (filter (\<lambda>i. kd \<or> \<not> fl ! i) is)"
  by (induction "is" arbitrary: ax c) auto

lemma filter_not_nth_upt:
  "length (filter (\<lambda>i. \<not> fl ! i) [0..<length fl]) = length fl - length (filter id fl)"
proof -
  have "length (filter (\<lambda>i. fl ! i) [0..<length fl])
      + length (filter (\<lambda>i. \<not> fl ! i) [0..<length fl]) = length [0..<length fl]"
    by (rule sum_length_filter_compl)
  then show ?thesis using filter_nth_upt [of fl] by simp
qed

lemma curr_axis_eq:
  assumes "length fl = n"
  shows "snd (result_axes_loop fl kd [0..<n] ([], 0))
       = (if kd then n else n - length (filter id fl))"
  using assms filter_not_nth_upt [of fl] by (auto simp: result_axes_loop_snd)

lemma show_nat_last: "show_nat n \<noteq> [] \<and> last (show_nat n) = digit_char (n mod 10)"
  by (subst (1 2) show_nat.simps) simp

lemma digit_char_not_paren: "digit_char (n mod 10) \<noteq> CHR '')''"
proof -
  have "n mod 10 < length ''0123456789''" by simp
  then have "digit_char (n mod 10) \<in> set ''0123456789''"
    unfolding digit_char_def by (rule nth_mem)
  then show ?thesis by auto
qed

lemma msg_out_ndim_distinct:
  "msg_out_ndim_keepdims f n e \<noteq> msg_out_ndim f' n' e'"
proof
  assume eq: "msg_out_ndim_keepdims f n e = msg_out_ndim f' n' e'"
  have "last (msg_out_ndim_keepdims f n e) = CHR '')''"
    by (simp add: msg_out_ndim_keepdims_def)
  moreover have "last (msg_out_ndim f' n' e') = digit_char (e' mod 10)"
    using show_nat_last [of e'] by (simp add: msg_out_ndim_def)
  ultimately show False using eq digit_char_not_paren [of e'] by simp
qed

lemma seed_loop_None:
  "seed_loop fl sh st kd is acc = None \<longleftrightarrow> (\<exists>i\<in>set is. fl ! i \<and> sh ! i = 0)"
proof (induction "is" arbitrary: acc)
  case Nil
  then show ?case by simp
next
  case (Cons i "is")
  then show ?case by (cases acc) auto
qed

subsection \<open>The object that is returned\<close>

lemma reduce_fail_None: "fst (reduce_fail E it s) = None"
  by (simp add: reduce_fail_def)

lemma reduce_finish_result:
  "reduce_finish E a it r s = (Some q, s') \<Longrightarrow> q = (case out a of Some p \<Rightarrow> p | None \<Rightarrow> r)"
  by (auto simp: reduce_finish_def reduce_fail_def Let_def split: if_splits prod.splits)

lemma reduce_iterate_result:
  "reduce_iterate E loop a it r api k s = (Some q, s')
     \<Longrightarrow> q = (case out a of Some p \<Rightarrow> p | None \<Rightarrow> r)"
  by (auto simp: reduce_iterate_def reduce_fail_def split: if_splits prod.splits
      dest: reduce_finish_result)

lemma reduce_seed_result:
  "reduce_seed E loop a it s = (Some q, s')
     \<Longrightarrow> q = (case out a of Some p \<Rightarrow> p
               | None \<Rightarrow> NpyIter_GetOperandArray E it (W s) ! 0)"
  by (auto simp: reduce_seed_def reduce_fail_def Let_def split: if_splits prod.splits option.splits
      dest: reduce_iterate_result)

subsection \<open>The calls the engine makes\<close>

lemma logged_calls: "logged c f s = (r, s') \<Longrightarrow> calls s' = calls s @ [c]"
  by (auto simp: logged_def split: prod.splits)

lemma logged_unit_calls: "calls (logged_unit c f s) = calls s @ [c]"
  by (simp add: logged_unit_def)

lemma PyErr_Format_calls: "calls (PyErr_Format e m s) = calls s"
  by (simp add: PyErr_Format_def)

lemma reduce_fail_calls:
  "reduce_fail E it s = (q, s') \<Longrightarrow> calls s' = calls s @ [Call_NpyIter_Deallocate it]"
  by (auto simp: reduce_fail_def logged_def split: prod.splits)

lemma reduce_finish_calls:
  assumes "reduce_finish E a it r0 s = (q, s')"
  shows "\<exists>cs. calls s' = calls s @ cs \<and> (\<forall>c\<in>set cs. driver_call_ok a it r c)"
proof (cases "PyErr_Occurred s")
  case True
  then show ?thesis using assms reduce_fail_calls [of E it s q s']
    by (auto simp: reduce_finish_def)
next
  case False
  obtain rc s1 where l1: "logged (Call_check_ufunc_fperr (errormask a))
      (check_ufunc_fperr E (errormask a)) s = (rc, s1)"
    by (cases "logged (Call_check_ufunc_fperr (errormask a)) (check_ufunc_fperr E (errormask a)) s")
  have c1: "calls s1 = calls s @ [Call_check_ufunc_fperr (errormask a)]"
    using l1 by (rule logged_calls)
  show ?thesis
  proof (cases "rc < 0")
    case True
    then have "reduce_fail E it s1 = (q, s')"
      using assms False l1 by (simp add: reduce_finish_def)
    then show ?thesis using c1 reduce_fail_calls by fastforce
  next
    case nonneg: False
    obtain ok s2 where l2: "logged (Call_NpyIter_Deallocate it) (NpyIter_Deallocate E it) s1
        = (ok, s2)"
      by (cases "logged (Call_NpyIter_Deallocate it) (NpyIter_Deallocate E it) s1")
    have c2: "calls s2 = calls s1 @ [Call_NpyIter_Deallocate it]"
      using l2 by (rule logged_calls)
    show ?thesis
      using assms False l1 nonneg l2 c1 c2
      by (cases ok) (auto simp: reduce_finish_def Let_def logged_unit_calls)
  qed
qed

lemma reduce_iterate_calls:
  assumes "reduce_iterate E loop a it r0 api k s = (q, s')"
    and "identity a = None \<or> k = 0"
  shows "\<exists>cs. calls s' = calls s @ cs \<and> (\<forall>c\<in>set cs. driver_call_ok a it r c)"
proof -
  obtain ok s1 where l1: "logged (Call_NpyIter_Reset it) (NpyIter_Reset E it) s = (ok, s1)"
    by (cases "logged (Call_NpyIter_Reset it) (NpyIter_Reset E it) s")
  have c1: "calls s1 = calls s @ [Call_NpyIter_Reset it]"
    using l1 by (rule logged_calls)
  obtain nx s2 where l2: "logged (Call_NpyIter_GetIterNext it) (NpyIter_GetIterNext E it) s1
      = (nx, s2)"
    by (cases "logged (Call_NpyIter_GetIterNext it) (NpyIter_GetIterNext E it) s1")
  have c2: "calls s2 = calls s1 @ [Call_NpyIter_GetIterNext it]"
    using l2 by (rule logged_calls)
  obtain rc s3 where l3: "logged (Call_loop it api k (loop_data a)) (loop it api k (loop_data a)) s2
      = (rc, s3)"
    by (cases "logged (Call_loop it api k (loop_data a)) (loop it api k (loop_data a)) s2")
  have c3: "calls s3 = calls s2 @ [Call_loop it api k (loop_data a)]"
    using l3 by (rule logged_calls)
  consider (f1) "reduce_fail E it s1 = (q, s')"
    | (f2) "reduce_fail E it s2 = (q, s')"
    | (f3) "reduce_fail E it s3 = (q, s')"
    | (g1) "reduce_finish E a it r0 s1 = (q, s')"
    | (g3) "reduce_finish E a it r0 s3 = (q, s')"
    using assms(1) l1 l2 l3 by (auto simp: reduce_iterate_def split: if_splits)
  then show ?thesis
  proof cases
    case f1
    then show ?thesis using c1 reduce_fail_calls by fastforce
  next
    case f2
    then show ?thesis using c1 c2 reduce_fail_calls by fastforce
  next
    case f3
    then show ?thesis using c1 c2 c3 assms(2) reduce_fail_calls by fastforce
  next
    case g1
    from reduce_finish_calls [OF g1, of r] obtain cs where
      "calls s' = calls s1 @ cs" "\<forall>c\<in>set cs. driver_call_ok a it r c" by blast
    then show ?thesis using c1 by auto
  next
    case g3
    from reduce_finish_calls [OF g3, of r] obtain cs where
      "calls s' = calls s3 @ cs" "\<forall>c\<in>set cs. driver_call_ok a it r c" by blast
    then show ?thesis using c1 c2 c3 assms(2) by auto
  qed
qed

lemma seeder_calls:
  assumes "PyArray_CopyInitialReduceValues E r p fl f kd s = (rc, s')"
  shows "\<exists>cs. calls s' = calls s @ cs \<and> (\<forall>c\<in>set cs. seeder_call_ok r c)"
  using assms
  by (auto simp: PyArray_CopyInitialReduceValues_def Let_def PyErr_Format_calls logged_def
      logged_unit_def split: option.splits prod.splits if_splits)

lemma seeder_ok_driver_ok:
  "identity a = None \<Longrightarrow> seeder_call_ok r c \<Longrightarrow> driver_call_ok a it r c"
  by (cases c) auto

lemma reduce_seed_calls:
  assumes "reduce_seed E loop a it s = (q, s')"
  shows "\<exists>cs. calls s' = calls s @ cs
           \<and> (\<forall>c\<in>set cs. driver_call_ok a it (NpyIter_GetOperandArray E it (W s) ! 0) c)"
proof -
  let ?r = "NpyIter_GetOperandArray E it (W s) ! 0"
  let ?api = "NpyIter_IterationNeedsAPI E it (W s)"
  let ?s1 = "logged_unit Call_npy_clear_floatstatus_barrier (npy_clear_floatstatus_barrier E) s"
  have c1: "calls ?s1 = calls s @ [Call_npy_clear_floatstatus_barrier]"
    by (rule logged_unit_calls)
  show ?thesis
  proof (cases "identity a")
    case (Some v)
    obtain rc s2 where l2: "logged (Call_PyArray_FillWithScalar ?r v)
        (PyArray_FillWithScalar E ?r v) ?s1 = (rc, s2)"
      by (cases "logged (Call_PyArray_FillWithScalar ?r v) (PyArray_FillWithScalar E ?r v) ?s1")
    have c2: "calls s2 = calls ?s1 @ [Call_PyArray_FillWithScalar ?r v]"
      using l2 by (rule logged_calls)
    consider (f) "reduce_fail E it s2 = (q, s')"
      | (g) "reduce_iterate E loop a it ?r ?api 0 s2 = (q, s')"
      using assms Some l2 by (auto simp: reduce_seed_def Let_def split: if_splits)
    then show ?thesis
    proof cases
      case f
      then show ?thesis using c1 c2 Some reduce_fail_calls by fastforce
    next
      case g
      from reduce_iterate_calls [OF g, of ?r] obtain cs where
        "calls s' = calls s2 @ cs" "\<forall>c\<in>set cs. driver_call_ok a it ?r c" by auto
      then show ?thesis using c1 c2 Some by auto
    qed
  next
    case None
    obtain k s2 where l2: "PyArray_CopyInitialReduceValues E ?r (operand a) (axis_flags a)
        (funcname a) (keepdims a) ?s1 = (k, s2)"
      by (cases "PyArray_CopyInitialReduceValues E ?r (operand a) (axis_flags a)
        (funcname a) (keepdims a) ?s1")
    from seeder_calls [OF l2] obtain cs0 where
      c2: "calls s2 = calls ?s1 @ cs0" and ok0: "\<forall>c\<in>set cs0. seeder_call_ok ?r c" by blast
    have ok0': "\<forall>c\<in>set cs0. driver_call_ok a it ?r c"
      using ok0 None by (auto intro: seeder_ok_driver_ok)
    consider (f) "reduce_fail E it s2 = (q, s')"
      | (g) "reduce_iterate E loop a it ?r ?api k s2 = (q, s')"
      using assms None l2 by (auto simp: reduce_seed_def Let_def split: if_splits)
    then show ?thesis
    proof cases
      case f
      then show ?thesis using c1 c2 ok0' reduce_fail_calls by fastforce
    next
      case g
      from reduce_iterate_calls [OF g, of ?r] None obtain cs where
        "calls s' = calls s2 @ cs" "\<forall>c\<in>set cs. driver_call_ok a it ?r c" by auto
      then show ?thesis using c1 c2 ok0' by auto
    qed
  qed
qed

lemma reduce_calls:
  assumes "PyUFunc_ReduceWrapper E loop a s = (q, s')"
  shows "new_calls s s' = [] \<or>
    (\<exists>ra ca it w1 cs.
       result_axes_loop (axis_flags a) (keepdims a)
         [0..<PyArray_NDIM (the (heap (W s) (operand a)))] ([], 0) = (ra, ca)
       \<and> new_calls s s' = Call_NpyIter_AdvancedNew (reduce_request (W s) a ra) # cs
       \<and> (cs = [] \<or>
            NpyIter_AdvancedNew E (reduce_request (W s) a ra) (W s) = (Some it, w1)
            \<and> (\<forall>c\<in>set cs. driver_call_ok a it (NpyIter_GetOperandArray E it w1 ! 0) c)))"
proof -
  let ?n = "PyArray_NDIM (the (heap (W s) (operand a)))"
  obtain ra ca where rl: "result_axes_loop (axis_flags a) (keepdims a) [0..<?n] ([], 0) = (ra, ca)"
    by (cases "result_axes_loop (axis_flags a) (keepdims a) [0..<?n] ([], 0)")
  let ?req = "reduce_request (W s) a ra"
  obtain io w1 where n1: "NpyIter_AdvancedNew E ?req (W s) = (io, w1)"
    by (cases "NpyIter_AdvancedNew E ?req (W s)")
  let ?s1 = "\<lparr>W = w1, calls = calls s @ [Call_NpyIter_AdvancedNew ?req]\<rparr>"
  have l1: "logged (Call_NpyIter_AdvancedNew ?req) (NpyIter_AdvancedNew E ?req) s = (io, ?s1)"
    using n1 by (simp add: logged_def)
  consider (e) "calls s' = calls s"
    | (n) "io = None" "s' = ?s1"
    | (i) it where "io = Some it" "reduce_seed E loop a it ?s1 = (q, s')"
    using assms rl l1
    by (auto simp: PyUFunc_ReduceWrapper_def Let_def PyErr_Format_calls
        split: if_splits option.splits)
  then show ?thesis
  proof cases
    case e
    then show ?thesis by (simp add: new_calls_def)
  next
    case n
    then show ?thesis using rl by (auto simp: new_calls_def)
  next
    case i
    from reduce_seed_calls [OF i(2)] obtain cs where
      "calls s' = calls ?s1 @ cs"
      "\<forall>c\<in>set cs. driver_call_ok a it (NpyIter_GetOperandArray E it w1 ! 0) c" by auto
    then show ?thesis using rl n1 i(1) by (auto simp: new_calls_def)
  qed
qed

subsection \<open>The checks before the iterator exists\<close>

text \<open>
  C2. For every operand and axis flags with more than one flagged axis, a reduction that
  is not reorderable fails with \<open>NonReorderableMultiAxisError\<close>, whatever the shape of
  the operand. Nothing has been allocated and nothing iterated: no collaborator was
  called, and the world differs from the initial one in the error indicator only.
\<close>

theorem reduce_not_reorderable_multi_axis:
  assumes "heap (W s) (operand a) = Some opnd"
    and "length (axis_flags a) = PyArray_NDIM opnd"
    and "\<not> reorderable a"
    and "1 < length (filter id (axis_flags a))"
  shows "PyUFunc_ReduceWrapper E loop a s =
     (None, s\<lparr>W := (W s)\<lparr>pyerr := Some (NonReorderableMultiAxisError (funcname a))\<rparr>\<rparr>)"
  using assms
  by (simp add: PyUFunc_ReduceWrapper_def count_axes_eq PyErr_Format_def
      NonReorderableMultiAxisError_def)

theorem reduce_not_reorderable_multi_axis_witness:
  "heap (W ex_state) (operand (mk_args 1 None None [True, True] False False None))
     = Some (mk_array [2, 3] [3, 1] 1000)
   \<and> length (axis_flags (mk_args 1 None None [True, True] False False None))
     = PyArray_NDIM (mk_array [2, 3] [3, 1] 1000)
   \<and> \<not> reorderable (mk_args 1 None None [True, True] False False None)
   \<and> 1 < length (filter id (axis_flags (mk_args 1 None None [True, True] False False None)))
   \<and> PyUFunc_ReduceWrapper (stub_ext 5 6) stub_loop
        (mk_args 1 None None [True, True] False False None) ex_state
     = (None, ex_state\<lparr>W := (W ex_state)
          \<lparr>pyerr := Some (NonReorderableMultiAxisError ''max'')\<rparr>\<rparr>)"
  using reduce_not_reorderable_multi_axis [where s = ex_state
      and a = "mk_args 1 None None [True, True] False False None"
      and opnd = "mk_array [2, 3] [3, 1] 1000" and E = "stub_ext 5 6" and loop = stub_loop]
  by (simp add: ex_defs PyArray_NDIM_def)

text \<open>
  C3, as stated, fails: with a where-mask and no identity, a reduction that is not
  reorderable over two flagged axes stops at the first check and raises
  \<open>NonReorderableMultiAxisError\<close>.
\<close>

theorem reduce_where_without_identity_counterexample:
  "wheremask (mk_args 1 None (Some 3) [True, True] False False None) \<noteq> None
   \<and> identity (mk_args 1 None (Some 3) [True, True] False False None) = None
   \<and> PyUFunc_ReduceWrapper (stub_ext 5 6) stub_loop
        (mk_args 1 None (Some 3) [True, True] False False None) ex_state
     = (None, ex_state\<lparr>W := (W ex_state)
          \<lparr>pyerr := Some (NonReorderableMultiAxisError ''max'')\<rparr>\<rparr>)
   \<and> NonReorderableMultiAxisError ''max'' \<noteq> WhereWithoutIdentityError ''max''"
  by (simp add: run_defs ex_defs err_defs)

text \<open>
  C3, amended. For every input with a where-mask and no identity that passes the first
  check (the reduction is reorderable, or at most one axis is flagged), the driver fails
  with \<open>WhereWithoutIdentityError\<close>, whatever the operand's shape and \<open>keepdims\<close>; no
  collaborator is called.
\<close>

theorem reduce_where_without_identity:
  assumes "heap (W s) (operand a) = Some opnd"
    and "length (axis_flags a) = PyArray_NDIM opnd"
    and "reorderable a \<or> length (filter id (axis_flags a)) \<le> 1"
    and "wheremask a \<noteq> None"
    and "identity a = None"
  shows "PyUFunc_ReduceWrapper E loop a s =
     (None, s\<lparr>W := (W s)\<lparr>pyerr := Some (WhereWithoutIdentityError (funcname a))\<rparr>\<rparr>)"
  using assms
  by (auto simp: PyUFunc_ReduceWrapper_def count_axes_eq PyErr_Format_def
      WhereWithoutIdentityError_def)

theorem reduce_where_without_identity_witness:
  "heap (W ex_state) (operand (mk_args 1 None (Some 3) [True, True] True False None))
     = Some (mk_array [2, 3] [3, 1] 1000)
   \<and> length (axis_flags (mk_args 1 None (Some 3) [True, True] True False None))
     = PyArray_NDIM (mk_array [2, 3] [3, 1] 1000)
   \<and> reorderable (mk_args 1 None (Some 3) [True, True] True False None)
   \<and> wheremask (mk_args 1 None (Some 3) [True, True] True False None) \<noteq> None
   \<and> identity (mk_args 1 None (Some 3) [True, True] True False None) = None
   \<and> PyUFunc_ReduceWrapper (stub_ext 5 6) stub_loop
        (mk_args 1 None (Some 3) [True, True] True False None) ex_state
     = (None, ex_state\<lparr>W := (W ex_state)
          \<lparr>pyerr := Some (WhereWithoutIdentityError ''max'')\<rparr>\<rparr>)"
  using reduce_where_without_identity [where s = ex_state
      and a = "mk_args 1 None (Some 3) [True, True] True False None"
      and opnd = "mk_array [2, 3] [3, 1] 1000" and E = "stub_ext 5 6" and loop = stub_loop]
  by (simp add: ex_defs PyArray_NDIM_def)

text \<open>
  C6, as stated, fails: an output array of the wrong rank (3 where 0 is expected) given
  to a reduction that is not reorderable over two flagged axes meets the first check,
  and the error is \<open>NonReorderableMultiAxisError\<close>.
\<close>

theorem reduce_output_rank_mismatch_counterexample:
  "out (mk_args 1 (Some 4) None [True, True] False False None) = Some 4
   \<and> heap (W ex_state) 4 = Some (mk_array [2, 3, 1] [3, 1, 1] 4000)
   \<and> PyArray_NDIM (mk_array [2, 3, 1] [3, 1, 1] 4000)
       \<noteq> PyArray_NDIM (mk_array [2, 3] [3, 1] 1000) - length (filter id [True, True])
   \<and> PyUFunc_ReduceWrapper (stub_ext 5 6) stub_loop
        (mk_args 1 (Some 4) None [True, True] False False None) ex_state
     = (None, ex_state\<lparr>W := (W ex_state)
          \<lparr>pyerr := Some (NonReorderableMultiAxisError ''max'')\<rparr>\<rparr>)
   \<and> NonReorderableMultiAxisError ''max'' \<noteq> OutputShapeMismatchError ''max'' False 3 0"
  by (simp add: run_defs ex_defs err_defs)

text \<open>
  C6, amended. For every call that passes the first two checks and supplies an output
  array whose rank differs from the computed output rank (the operand's rank when
  \<open>keepdims\<close> is true, the operand's rank minus the number of flagged axes otherwise),
  the driver fails with \<open>OutputShapeMismatchError\<close> before any collaborator is called.
  The message gives the rank found and the rank expected, and the message for
  \<open>keepdims\<close> is never the message without it.
\<close>

theorem reduce_output_rank_mismatch:
  assumes "heap (W s) (operand a) = Some opnd"
    and "length (axis_flags a) = PyArray_NDIM opnd"
    and "out a = Some p"
    and "heap (W s) p = Some outp"
    and "reorderable a \<or> length (filter id (axis_flags a)) \<le> 1"
    and "wheremask a = None \<or> identity a \<noteq> None"
    and "expected = (if keepdims a then PyArray_NDIM opnd
                     else PyArray_NDIM opnd - length (filter id (axis_flags a)))"
    and "PyArray_NDIM outp \<noteq> expected"
  shows "PyUFunc_ReduceWrapper E loop a s =
     (None, s\<lparr>W := (W s)\<lparr>pyerr :=
        Some (OutputShapeMismatchError (funcname a) (keepdims a) (PyArray_NDIM outp) expected)\<rparr>\<rparr>)
     \<and> OutputShapeMismatchError f True n e \<noteq> OutputShapeMismatchError f' False n' e'"
proof -
  obtain ra c where rc: "result_axes_loop (axis_flags a) (keepdims a) [0..<PyArray_NDIM opnd]
      ([], 0) = (ra, c)"
    by (cases "result_axes_loop (axis_flags a) (keepdims a) [0..<PyArray_NDIM opnd] ([], 0)")
  have c: "c = expected"
    using curr_axis_eq [OF assms(2), of "keepdims a"] assms(7) rc by simp
  have g1: "\<not> (\<not> reorderable a \<and> 1 < count_axes (PyArray_NDIM opnd) (axis_flags a))"
    using assms(2,5) by (auto simp: count_axes_eq)
  have g2: "\<not> (wheremask a \<noteq> None \<and> identity a = None)"
    using assms(6) by auto
  have "PyUFunc_ReduceWrapper E loop a s =
     (None, s\<lparr>W := (W s)\<lparr>pyerr :=
        Some (OutputShapeMismatchError (funcname a) (keepdims a) (PyArray_NDIM outp) expected)\<rparr>\<rparr>)"
    unfolding PyUFunc_ReduceWrapper_def Let_def
    using assms(1,3,4,8) rc c
    by (simp only: if_not_P [OF g1] if_not_P [OF g2] option.sel)
       (simp add: PyErr_Format_def OutputShapeMismatchError_def)
  moreover have "OutputShapeMismatchError f True n e \<noteq> OutputShapeMismatchError f' False n' e'"
    by (simp add: OutputShapeMismatchError_def msg_out_ndim_distinct)
  ultimately show ?thesis by simp
qed

theorem reduce_output_rank_mismatch_witness:
  "heap (W ex_state) (operand (mk_args 1 (Some 4) None [False, True] False False None))
     = Some (mk_array [2, 3] [3, 1] 1000)
   \<and> length (axis_flags (mk_args 1 (Some 4) None [False, True] False False None))
     = PyArray_NDIM (mk_array [2, 3] [3, 1] 1000)
   \<and> out (mk_args 1 (Some 4) None [False, True] False False None) = Some 4
   \<and> heap (W ex_state) 4 = Some (mk_array [2, 3, 1] [3, 1, 1] 4000)
   \<and> length (filter id (axis_flags (mk_args 1 (Some 4) None [False, True] False False None))) \<le> 1
   \<and> wheremask (mk_args 1 (Some 4) None [False, True] False False None) = None
   \<and> PyArray_NDIM (mk_array [2, 3, 1] [3, 1, 1] 4000) \<noteq> 1
   \<and> PyUFunc_ReduceWrapper (stub_ext 5 6) stub_loop
        (mk_args 1 (Some 4) None [False, True] False False None) ex_state
     = (None, ex_state\<lparr>W := (W ex_state)
          \<lparr>pyerr := Some (OutputShapeMismatchError ''max'' False 3 1)\<rparr>\<rparr>)
   \<and> OutputShapeMismatchError ''max'' True 3 2 \<noteq> OutputShapeMismatchError ''max'' False 3 1"
  using reduce_output_rank_mismatch [where s = ex_state
      and a = "mk_args 1 (Some 4) None [False, True] False False None"
      and opnd = "mk_array [2, 3] [3, 1] 1000" and E = "stub_ext 5 6" and loop = stub_loop
      and p = 4 and outp = "mk_array [2, 3, 1] [3, 1, 1] 4000" and expected = 1
      and f = "''max''" and f' = "''max''" and n = 3 and n' = 3 and e = 2 and e' = 1]
  by (simp add: ex_defs PyArray_NDIM_def numeral_3_eq_3)

subsection \<open>The returned object and the skip count\<close>

text \<open>
  C7. Whenever the driver succeeds and the caller supplied an output array, the object
  returned is that array (the same address), not the first operand of the iterator.
\<close>

theorem reduce_returns_out:
  assumes "PyUFunc_ReduceWrapper E loop a s = (Some q, s')"
    and "out a = Some p"
  shows "q = p"
  using assms
  by (auto simp: PyUFunc_ReduceWrapper_def Let_def split: if_splits prod.splits option.splits
      dest: reduce_seed_result)

text \<open>
  In the witness the iterator binds its first operand to address 5, the caller's output
  is at address 2, and 2 is returned.
\<close>

theorem reduce_returns_out_witness:
  "out (mk_args 1 (Some 2) None [False, True] True False (Some 0)) = Some 2
   \<and> NpyIter_GetOperandArray (stub_ext 5 6) 0 (W ex_state) ! 0 = 5
   \<and> fst (PyUFunc_ReduceWrapper (stub_ext 5 6) stub_loop
        (mk_args 1 (Some 2) None [False, True] True False (Some 0)) ex_state) = Some 2"
proof -
  let ?A = "mk_args 1 (Some 2) None [False, True] True False (Some 0)"
  let ?R = "PyUFunc_ReduceWrapper (stub_ext 5 6) stub_loop ?A ex_state"
  have ok: "fst ?R \<noteq> None"
    by (simp add: run_defs ex_defs)
  then obtain q where q: "fst ?R = Some q" by blast
  then have run: "?R = (Some q, snd ?R)"
    by (metis prod.collapse)
  have o: "out ?A = Some 2" by (simp add: mk_args_def)
  have "q = 2" using reduce_returns_out [OF run o] .
  then show ?thesis using q o by (simp add: stub_ext_def)
qed

text \<open>
  C9. In every call with an identity, each time the accumulation callback is invoked the
  \<open>skip_first_count\<close> it receives is 0; a call of the callback with another skip count
  is therefore found only in a reduction without identity.
\<close>

theorem reduce_identity_skip_zero:
  assumes "identity a = Some v"
    and "PyUFunc_ReduceWrapper E loop a s = (q, s')"
    and "Call_loop it api k d \<in> set (new_calls s s')"
  shows "k = 0"
proof -
  from reduce_calls [OF assms(2)] assms(3)
  obtain it0 r0 cs where "Call_loop it api k d \<in> set cs"
    and "\<forall>c\<in>set cs. driver_call_ok a it0 r0 c"
    by auto
  then have "driver_call_ok a it0 r0 (Call_loop it api k d)" by blast
  then show ?thesis using assms(1) by simp
qed

theorem reduce_identity_skip_zero_witness:
  "identity (mk_args 1 None None [False, True] True False (Some 0)) = Some 0
   \<and> Call_loop 0 False 0 0 \<in> set (new_calls ex_state
        (snd (PyUFunc_ReduceWrapper (stub_ext 5 6) stub_loop
           (mk_args 1 None None [False, True] True False (Some 0)) ex_state)))
   \<and> (0::int) = 0"
proof -
  let ?A = "mk_args 1 None None [False, True] True False (Some 0)"
  let ?R = "PyUFunc_ReduceWrapper (stub_ext 5 6) stub_loop ?A ex_state"
  have i: "identity ?A = Some 0" by (simp add: mk_args_def)
  have run: "?R = (fst ?R, snd ?R)" by simp
  have m: "Call_loop 0 False 0 0 \<in> set (new_calls ex_state (snd ?R))"
    by (simp add: run_defs ex_defs)
  show ?thesis using reduce_identity_skip_zero [OF i run m] i m by simp
qed

subsection \<open>The seeder\<close>

text \<open>
  C10. When a reduced axis has extent 0 the seeder returns \<open>-1\<close> with
  \<open>EmptyReductionError\<close> set and has called no collaborator: the test of every reduced
  axis comes before the view is built and before anything is copied, so the world (the
  result buffer with it) is the initial one apart from the error indicator.
\<close>

theorem seeder_empty_leaves_result_unchanged:
  assumes "heap (W s) p = Some opnd"
    and "length flgs = PyArray_NDIM opnd"
    and "i < PyArray_NDIM opnd"
    and "flgs ! i"
    and "shape opnd ! i = 0"
  shows "PyArray_CopyInitialReduceValues E result p flgs f kd s =
     (- 1, s\<lparr>W := (W s)\<lparr>pyerr := Some (EmptyReductionError f)\<rparr>\<rparr>)"
proof -
  have "seed_loop flgs (shape opnd) (strides opnd) kd [0..<PyArray_NDIM opnd]
          ([], [], 1) = None"
    using assms(3-5) by (auto simp: seed_loop_None)
  then show ?thesis
    using assms(1)
    by (simp add: PyArray_CopyInitialReduceValues_def PyErr_Format_def EmptyReductionError_def)
qed

theorem seeder_empty_leaves_result_unchanged_witness:
  "heap (W ex_empty_state) 1 = Some (mk_array [3, 0] [0, 1] 1000)
   \<and> length [False, True] = PyArray_NDIM (mk_array [3, 0] [0, 1] 1000)
   \<and> 1 < PyArray_NDIM (mk_array [3, 0] [0, 1] 1000)
   \<and> [False, True] ! 1
   \<and> shape (mk_array [3, 0] [0, 1] 1000) ! 1 = 0
   \<and> PyArray_CopyInitialReduceValues (stub_ext 5 0) 5 1 [False, True] ''max'' False
        ex_empty_state
     = (- 1, ex_empty_state\<lparr>W := (W ex_empty_state)
          \<lparr>pyerr := Some (EmptyReductionError ''max'')\<rparr>\<rparr>)"
  using seeder_empty_leaves_result_unchanged [where s = ex_empty_state and p = 1
      and opnd = "mk_array [3, 0] [0, 1] 1000" and flgs = "[False, True]" and i = 1
      and E = "stub_ext 5 0" and result = 5 and f = "''max''" and kd = False]
  by (simp add: ex_defs PyArray_NDIM_def)

subsection \<open>Wrap-around\<close>

lemma wrap_signed_mod: "wrap_signed w x mod 2 ^ w = x mod 2 ^ w"
proof -
  have "((x + 2 ^ (w - 1)) mod 2 ^ w - 2 ^ (w - 1)) mod 2 ^ w
      = (x + 2 ^ (w - 1) - 2 ^ (w - 1)) mod (2 ^ w :: int)"
    by (rule mod_diff_left_eq)
  then show ?thesis by (simp add: wrap_signed_def)
qed

lemma wrap_signed_cong:
  assumes "x mod 2 ^ w = y mod (2 ^ w :: int)"
  shows "wrap_signed w x = wrap_signed w y"
proof -
  have "(x + 2 ^ (w - 1)) mod 2 ^ w = (y + 2 ^ (w - 1)) mod (2 ^ w :: int)"
    using assms by (rule mod_add_cong) simp
  then show ?thesis by (simp add: wrap_signed_def)
qed

lemma wrap_signed_mult_left: "wrap_signed w (wrap_signed w a * b) = wrap_signed w (a * b)"
proof (rule wrap_signed_cong)
  have "(wrap_signed w a * b) mod 2 ^ w = (wrap_signed w a mod 2 ^ w * b) mod 2 ^ w"
    by (simp add: mod_mult_left_eq)
  also have "\<dots> = (a mod 2 ^ w * b) mod 2 ^ w"
    by (simp only: wrap_signed_mod)
  also have "\<dots> = (a * b) mod 2 ^ w"
    by (simp add: mod_mult_left_eq)
  finally show "(wrap_signed w a * b) mod 2 ^ w = (a * b) mod 2 ^ w" .
qed

lemma to_npy_intp_mult_left: "to_npy_intp (to_npy_intp a * b) = to_npy_intp (a * b)"
  by (simp add: to_npy_intp_def wrap_signed_mult_left)

lemma to_npy_intp_idem: "to_npy_intp (to_npy_intp a) = to_npy_intp a"
  using to_npy_intp_mult_left [of a 1] by simp

lemma to_c_int_npy_intp: "to_c_int (to_npy_intp x) = to_c_int x"
proof -
  have d: "(2 ^ 32 :: int) dvd 2 ^ 64"
    by (rule le_imp_power_dvd) simp
  have "wrap_signed 64 x mod 2 ^ 32 = (wrap_signed 64 x mod 2 ^ 64) mod 2 ^ 32"
    using mod_mod_cancel [OF d, of "wrap_signed 64 x"] by simp
  also have "\<dots> = (x mod 2 ^ 64) mod 2 ^ 32"
    by (simp only: wrap_signed_mod)
  also have "\<dots> = x mod 2 ^ 32"
    using mod_mod_cancel [OF d, of x] by simp
  finally show ?thesis
    unfolding to_c_int_def to_npy_intp_def by (rule wrap_signed_cong)
qed

lemma to_c_int_in_range: "- (2 ^ 31) \<le> x \<Longrightarrow> x < 2 ^ 31 \<Longrightarrow> to_c_int x = x"
  by (simp add: to_c_int_def wrap_signed_def)

subsection \<open>The seeder's loop\<close>

lemma seed_loop_Some:
  assumes "\<forall>i\<in>set is. flgs ! i \<longrightarrow> sh ! i \<noteq> 0"
  shows "seed_loop flgs sh st kd is (shp, strd, sz) =
     Some (shp @ view_entries flgs kd 1 sh is, strd @ view_entries flgs kd 0 st is,
           (if filter (\<lambda>i. \<not> flgs ! i) is = [] then sz
            else to_npy_intp (sz * prod_list (map ((!) sh) (filter (\<lambda>i. \<not> flgs ! i) is)))))"
  using assms
proof (induction "is" arbitrary: shp strd sz)
  case Nil
  then show ?case by (simp add: view_entries_def)
next
  case (Cons i "is")
  then show ?case
    by (auto simp: view_entries_def to_npy_intp_mult_left mult.assoc)
qed

lemma view_entries_append:
  "view_entries flgs kd u xs (is @ js) = view_entries flgs kd u xs is @ view_entries flgs kd u xs js"
  by (simp add: view_entries_def)

lemma view_entries_kept:
  "\<forall>i\<in>set is. \<not> flgs ! i \<Longrightarrow> view_entries flgs kd u xs is = map ((!) xs) is"
  by (induction "is") (auto simp: view_entries_def)

lemma view_entries_no_keepdims:
  "view_entries flgs False u xs is = map ((!) xs) (filter (\<lambda>i. \<not> flgs ! i) is)"
  by (induction "is") (auto simp: view_entries_def)

lemma map_nth_take: "k \<le> length xs \<Longrightarrow> map ((!) xs) [0..<k] = take k xs"
proof -
  assume k: "k \<le> length xs"
  have "take k xs = take k (map ((!) xs) [0..<length xs])" by (simp add: map_nth)
  also have "\<dots> = map ((!) xs) (take k [0..<length xs])" by (rule take_map)
  also have "\<dots> = map ((!) xs) [0..<k]" using k by simp
  finally show ?thesis by simp
qed

lemma map_nth_drop: "map ((!) xs) [k..<length xs] = drop k xs"
proof -
  have "drop k xs = drop k (map ((!) xs) [0..<length xs])" by (simp add: map_nth)
  also have "\<dots> = map ((!) xs) (drop k [0..<length xs])" by (rule drop_map)
  also have "\<dots> = map ((!) xs) [k..<length xs]" by simp
  finally show ?thesis by simp
qed

lemma upt_split_at: "k < n \<Longrightarrow> [0..<n] = [0..<k] @ k # [Suc k..<n]"
  by (metis le_add1 less_imp_add_positive upt_add_eq_append upt_conv_Cons plus_nat.add_0 less_or_eq_imp_le)

lemma view_entries_single:
  assumes "k < length xs" and "flgs ! k" and "\<forall>j<length xs. j \<noteq> k \<longrightarrow> \<not> flgs ! j"
  shows "view_entries flgs kd u xs [0..<length xs]
       = (if kd then xs[k := u] else drop_axis k xs)"
proof -
  have a: "view_entries flgs kd u xs [0..<k] = take k xs"
    using assms(1,3) by (simp add: view_entries_kept map_nth_take)
  have b: "view_entries flgs kd u xs [Suc k..<length xs] = drop (Suc k) xs"
    using assms(3) by (simp add: view_entries_kept map_nth_drop)
  have c: "view_entries flgs kd u xs [k] = (if kd then [u] else [])"
    using assms(2) by (simp add: view_entries_def)
  have "view_entries flgs kd u xs [0..<length xs]
      = take k xs @ (if kd then [u] else []) @ drop (Suc k) xs"
    using a b c view_entries_append [of flgs kd u xs "[0..<k]" "k # [Suc k..<length xs]"]
      view_entries_append [of flgs kd u xs "[k]" "[Suc k..<length xs]"]
      upt_split_at [OF assms(1)]
    by simp
  then show ?thesis
    using assms(1) by (simp add: drop_axis_def upd_conv_take_nth_drop)
qed

lemma non_reduced_extents_single:
  assumes "k < length shp" and "flgs ! k" and "\<forall>j<length shp. j \<noteq> k \<longrightarrow> \<not> flgs ! j"
  shows "non_reduced_extents flgs shp = drop_axis k shp"
  using view_entries_single [OF assms, of False 0]
  by (simp add: non_reduced_extents_def view_entries_no_keepdims)

lemma prod_list_drop_axis:
  assumes "k < length shp" and "shp ! k = (1::int)"
  shows "prod_list (drop_axis k shp) = prod_list shp"
proof -
  have "prod_list shp = prod_list (take k shp @ shp ! k # drop (Suc k) shp)"
    using id_take_nth_drop [OF assms(1)] by simp
  then show ?thesis using assms(2) by (simp add: drop_axis_def)
qed

lemma offset_split:
  assumes "k < length strd" and "length idx = length strd"
  shows "offset strd idx = offset (take k strd) (take k idx) + strd ! k * int (idx ! k)
       + offset (drop (Suc k) strd) (drop (Suc k) idx)"
proof -
  have s: "strd = take k strd @ strd ! k # drop (Suc k) strd"
    using id_take_nth_drop [OF assms(1)] .
  have i: "idx = take k idx @ idx ! k # drop (Suc k) idx"
    using id_take_nth_drop [of k idx] assms by simp
  have "zip strd idx = zip (take k strd) (take k idx)
      @ (strd ! k, idx ! k) # zip (drop (Suc k) strd) (drop (Suc k) idx)"
    using assms
    by (subst s, subst i) (simp add: zip_append del: append_take_drop_id)
  then show ?thesis by (simp add: offset_def)
qed

lemma offset_drop_axis:
  assumes "k < length strd" and "length idx = length strd" and "idx ! k = 0"
  shows "offset (drop_axis k strd) (drop_axis k idx) = offset strd idx"
proof -
  have "zip (take k strd @ drop (Suc k) strd) (take k idx @ drop (Suc k) idx)
      = zip (take k strd) (take k idx) @ zip (drop (Suc k) strd) (drop (Suc k) idx)"
    using assms(2) by (simp add: zip_append)
  then have "offset (drop_axis k strd) (drop_axis k idx)
      = offset (take k strd) (take k idx) + offset (drop (Suc k) strd) (drop (Suc k) idx)"
    by (simp add: offset_def drop_axis_def)
  then show ?thesis using offset_split [OF assms(1,2)] assms(3) by simp
qed

lemma offset_update_zero:
  assumes "k < length strd" and "length idx = length strd" and "idx ! k = 0"
  shows "offset (strd[k := 0]) idx = offset strd idx"
proof -
  have "offset (strd[k := 0]) idx = offset (take k strd) (take k idx)
       + offset (drop (Suc k) strd) (drop (Suc k) idx)"
    using offset_split [of k "strd[k := 0]" idx] assms by simp
  then show ?thesis using offset_split [OF assms(1,2)] assms(3) by simp
qed

lemma valid_index_unit_axis:
  assumes "valid_index shp idx" and "k < length shp" and "shp ! k = 1"
  shows "idx ! k = 0"
proof -
  have "int (idx ! k) < shp ! k"
    using assms(1,2) by (auto simp: valid_index_def dest: list_all2_nthD)
  then show ?thesis using assms(3) by simp
qed

lemma seeder_run:
  assumes "heap (W s) p = Some opnd"
    and "\<forall>i<PyArray_NDIM opnd. flgs ! i \<longrightarrow> shape opnd ! i \<noteq> 0"
    and "shp = view_entries flgs kd 1 (shape opnd) [0..<PyArray_NDIM opnd]"
    and "strd = view_entries flgs kd 0 (strides opnd) [0..<PyArray_NDIM opnd]"
    and "PyArray_NewFromDescr E (descr opnd) (length shp) shp strd (data opnd) {} (W s)
           = (Some view, w1)"
    and "PyArray_CopyInto E result view w1 = (rc, w2)"
    and "0 \<le> rc"
  shows "PyArray_CopyInitialReduceValues E result p flgs f kd s =
     (to_c_int (prod_list (non_reduced_extents flgs (shape opnd))),
      \<lparr>W = Py_DECREF E view w2,
       calls = calls s @ [Call_PyArray_NewFromDescr (descr opnd) (length shp) shp strd
                            (data opnd) {},
                          Call_PyArray_CopyInto result view, Call_Py_DECREF view]\<rparr>)"
proof -
  let ?n = "PyArray_NDIM opnd"
  let ?kept = "filter (\<lambda>i. \<not> flgs ! i) [0..<?n]"
  let ?sz = "if ?kept = [] then 1 else to_npy_intp (1 * prod_list (map ((!) (shape opnd)) ?kept))"
  have sl: "seed_loop flgs (shape opnd) (strides opnd) kd [0..<?n] ([], [], 1)
      = Some (shp, strd, ?sz)"
    using seed_loop_Some [of "[0..<?n]" flgs "shape opnd" "strides opnd" kd "[]" "[]" 1]
      assms(2,3,4)
    by simp
  have sz: "to_c_int ?sz = to_c_int (prod_list (non_reduced_extents flgs (shape opnd)))"
    by (simp add: non_reduced_extents_def PyArray_NDIM_def to_c_int_npy_intp)
  show ?thesis
    unfolding PyArray_CopyInitialReduceValues_def Let_def
    using assms(1,5,6,7) sl sz
    by (simp add: logged_def logged_unit_def del: seed_loop.simps)
qed

text \<open>
  C4. The seeder is to return the product of the extents of the axes that are not
  reduced. It computes that product in the \<^verbatim>\<open>npy_intp\<close> \<^verbatim>\<open>size\<close> and returns it
  through its return type \<^verbatim>\<open>int\<close>. For an operand of \<open>2^31\<close> rows reduced along its
  second axis the product is \<open>2^31\<close>; the seeder returns \<open>-2^31\<close>, which the driver takes
  for a failure: it returns \<^verbatim>\<open>NULL\<close> with no error set.
\<close>

theorem seeder_truncates_size_to_int:
  "prod_list (non_reduced_extents [False, True] [2147483648, 2]) = 2147483648
   \<and> fst (PyArray_CopyInitialReduceValues (stub_ext 5 4294967296) 5 1 [False, True] ''max''
           False ex_big_state) = - 2147483648
   \<and> fst (PyUFunc_ReduceWrapper (stub_ext 5 4294967296) stub_loop
           (mk_args 1 None None [False, True] True False None) ex_big_state) = None
   \<and> pyerr (W (snd (PyUFunc_ReduceWrapper (stub_ext 5 4294967296) stub_loop
           (mk_args 1 None None [False, True] True False None) ex_big_state))) = None"
  by (simp add: run_defs ex_defs non_reduced_extents_def)

text \<open>
  C5, as stated, fails: for an operand with the single axis of extent 1, reduced without
  identity, the seeder returns 1, and the callback is called with the skip count 1.
\<close>

theorem seeder_unit_axis_counterexample:
  "length (filter id [True]) = 1
   \<and> shape (mk_array [1] [8] 1000) ! 0 = 1
   \<and> fst (PyArray_CopyInitialReduceValues (stub_ext 5 1) 5 1 [True] ''max'' False
           ex_unit_state) = 1
   \<and> Call_loop 0 False 1 0 \<in> set (calls (snd (PyUFunc_ReduceWrapper (stub_ext 5 1) stub_loop
           (mk_args 1 None None [True] True False None) ex_unit_state)))"
  by (simp add: run_defs ex_defs)

lemma prod_list_nonneg_int: "\<forall>x\<in>set xs. (0::int) \<le> x \<Longrightarrow> 0 \<le> prod_list xs"
  by (induction xs) auto

text \<open>The seeder on an operand whose one reduced axis has extent 1.\<close>

lemma seeder_unit_axis_run:
  assumes "heap (W s) p = Some opnd"
    and "length flgs = PyArray_NDIM opnd"
    and "length (strides opnd) = PyArray_NDIM opnd"
    and "k < PyArray_NDIM opnd"
    and "flgs ! k"
    and "\<forall>j<PyArray_NDIM opnd. j \<noteq> k \<longrightarrow> \<not> flgs ! j"
    and "shape opnd ! k = 1"
    and "\<forall>x\<in>set (shape opnd). 0 \<le> x"
    and "prod_list (shape opnd) < 2 ^ 31"
    and "shp = (if kd then shape opnd else drop_axis k (shape opnd))"
    and "strd = (if kd then (strides opnd)[k := 0] else drop_axis k (strides opnd))"
    and "PyArray_NewFromDescr E (descr opnd) (length shp) shp strd (data opnd) {} (W s)
           = (Some view, w1)"
    and "PyArray_CopyInto E result view w1 = (rc, w2)"
    and "0 \<le> rc"
  shows "PyArray_CopyInitialReduceValues E result p flgs f kd s =
     (prod_list (shape opnd),
      \<lparr>W = Py_DECREF E view w2,
       calls = calls s @ [Call_PyArray_NewFromDescr (descr opnd) (length shp) shp strd
                            (data opnd) {},
                          Call_PyArray_CopyInto result view, Call_Py_DECREF view]\<rparr>)
     \<and> prod_list (shape opnd) = prod_list (non_reduced_extents flgs (shape opnd))
     \<and> (\<forall>idx. valid_index (shape opnd) idx \<longrightarrow>
          offset strd (if kd then idx else drop_axis k idx) = offset (strides opnd) idx)"
proof -
  let ?n = "PyArray_NDIM opnd"
  have n: "?n = length (shape opnd)" by (simp add: PyArray_NDIM_def)
  have k: "k < length (shape opnd)" "k < length (strides opnd)"
    using assms(3,4) n by simp_all
  have nz: "\<forall>i<?n. flgs ! i \<longrightarrow> shape opnd ! i \<noteq> 0"
    using assms(6,7) by (metis zero_neq_one)
  have "view_entries flgs kd 1 (shape opnd) [0..<?n]
      = (if kd then (shape opnd)[k := 1] else drop_axis k (shape opnd))"
    using view_entries_single [of k "shape opnd" flgs kd 1] k(1) assms(5,6) n by simp
  moreover have "(shape opnd)[k := 1] = shape opnd"
    using assms(7) by (metis list_update_id)
  ultimately have shp: "shp = view_entries flgs kd 1 (shape opnd) [0..<?n]"
    using assms(10) by simp
  have strd: "strd = view_entries flgs kd 0 (strides opnd) [0..<?n]"
    using view_entries_single [of k "strides opnd" flgs kd 0] k(2) assms(3,5,6,11) by simp
  have pr: "prod_list (non_reduced_extents flgs (shape opnd)) = prod_list (shape opnd)"
    using non_reduced_extents_single [of k "shape opnd" flgs] k(1) assms(5,6,7) n
    by (simp add: prod_list_drop_axis)
  have "0 \<le> prod_list (shape opnd)"
    using assms(8) by (rule prod_list_nonneg_int)
  then have rg: "to_c_int (prod_list (shape opnd)) = prod_list (shape opnd)"
    using assms(9) by (simp add: to_c_int_in_range)
  have run: "PyArray_CopyInitialReduceValues E result p flgs f kd s =
     (prod_list (shape opnd),
      \<lparr>W = Py_DECREF E view w2,
       calls = calls s @ [Call_PyArray_NewFromDescr (descr opnd) (length shp) shp strd
                            (data opnd) {},
                          Call_PyArray_CopyInto result view, Call_Py_DECREF view]\<rparr>)"
    using seeder_run [OF assms(1) nz shp strd assms(12,13,14)] pr rg by simp
  have off: "offset strd (if kd then idx else drop_axis k idx) = offset (strides opnd) idx"
    if v: "valid_index (shape opnd) idx" for idx
  proof -
    have z: "idx ! k = 0"
      using valid_index_unit_axis [OF v k(1) assms(7)] .
    have l: "length idx = length (strides opnd)"
      using v assms(3) n by (simp add: valid_index_def)
    show ?thesis
      using offset_drop_axis [OF k(2) l z] offset_update_zero [OF k(2) l z] assms(11) by simp
  qed
  show ?thesis using run pr off by simp
qed

subsection \<open>A reduced axis of extent 0\<close>

lemma reduce_past_checks:
  assumes "heap (W s) (operand a) = Some opnd"
    and "length (axis_flags a) = PyArray_NDIM opnd"
    and "reorderable a \<or> length (filter id (axis_flags a)) \<le> 1"
    and "wheremask a = None \<or> identity a \<noteq> None"
    and "\<forall>p. out a = Some p \<longrightarrow> (\<exists>outp. heap (W s) p = Some outp \<and> PyArray_NDIM outp =
           (if keepdims a then PyArray_NDIM opnd
            else PyArray_NDIM opnd - length (filter id (axis_flags a))))"
    and "req = reduce_request (W s) a
           (fst (result_axes_loop (axis_flags a) (keepdims a) [0..<PyArray_NDIM opnd] ([], 0)))"
  shows "PyUFunc_ReduceWrapper E loop a s =
     (case logged (Call_NpyIter_AdvancedNew req) (NpyIter_AdvancedNew E req) s of
        (None, s1) \<Rightarrow> (None, s1)
      | (Some it, s1) \<Rightarrow> reduce_seed E loop a it s1)"
proof -
  obtain ra c where rc: "result_axes_loop (axis_flags a) (keepdims a) [0..<PyArray_NDIM opnd]
      ([], 0) = (ra, c)"
    by (cases "result_axes_loop (axis_flags a) (keepdims a) [0..<PyArray_NDIM opnd] ([], 0)")
  have c: "c = (if keepdims a then PyArray_NDIM opnd
                else PyArray_NDIM opnd - length (filter id (axis_flags a)))"
    using curr_axis_eq [OF assms(2), of "keepdims a"] rc by simp
  have g1: "\<not> (\<not> reorderable a \<and> 1 < count_axes (PyArray_NDIM opnd) (axis_flags a))"
    using assms(2,3) by (auto simp: count_axes_eq)
  have g2: "\<not> (wheremask a \<noteq> None \<and> identity a = None)"
    using assms(4) by auto
  have g3: "\<not> (out a \<noteq> None \<and> c \<noteq> PyArray_NDIM (the (heap (W s) (the (out a)))))"
  proof (cases "out a")
    case None
    then show ?thesis by simp
  next
    case (Some p)
    with assms(5) obtain outp where "heap (W s) p = Some outp" "PyArray_NDIM outp = c"
      using c by auto
    then show ?thesis using Some by simp
  qed
  show ?thesis
    unfolding PyUFunc_ReduceWrapper_def Let_def
    using assms(1,6) rc
    by (simp only: if_not_P [OF g1] if_not_P [OF g2] option.sel prod.case if_not_P [OF g3] fst_conv)
qed

lemma seeder_empty_run:
  assumes "heap (W s) p = Some opnd"
    and "i < PyArray_NDIM opnd"
    and "flgs ! i"
    and "shape opnd ! i = 0"
  shows "PyArray_CopyInitialReduceValues E result p flgs f kd s =
     (- 1, PyErr_Format ''ValueError'' (msg_zero_size f) s)"
proof -
  have "seed_loop flgs (shape opnd) (strides opnd) kd [0..<PyArray_NDIM opnd]
          ([], [], 1) = None"
    using assms(2-4) by (auto simp: seed_loop_None)
  then show ?thesis
    using assms(1) by (simp add: PyArray_CopyInitialReduceValues_def)
qed

lemma prod_list_zero_int: "(0::int) \<in> set xs \<Longrightarrow> prod_list xs = 0"
  by (induction xs) auto

text \<open>
  C1, as stated, fails: the operand of shape \<open>[3, 0]\<close> reduced over both axes without
  identity has a flagged axis of extent 0, yet a reduction that is not reorderable is
  refused first, with \<open>NonReorderableMultiAxisError\<close>.
\<close>

theorem reduce_empty_reduction_counterexample:
  "identity (mk_args 1 None None [True, True] False False None) = None
   \<and> [True, True] ! 1 \<and> shape (mk_array [3, 0] [0, 1] 1000) ! 1 = 0
   \<and> PyUFunc_ReduceWrapper (stub_ext 5 0) stub_loop
        (mk_args 1 None None [True, True] False False None) ex_empty_state
     = (None, ex_empty_state\<lparr>W := (W ex_empty_state)
          \<lparr>pyerr := Some (NonReorderableMultiAxisError ''max'')\<rparr>\<rparr>)
   \<and> NonReorderableMultiAxisError ''max'' \<noteq> EmptyReductionError ''max''"
  by (simp add: run_defs ex_defs err_defs)

subsection \<open>What the collaborators keep, the engine keeps\<close>

lemma logged_keeps: "keeps P f \<Longrightarrow> P (W s) \<Longrightarrow> logged c f s = (r, s') \<Longrightarrow> P (W s')"
  by (auto simp: keeps_def logged_def split: prod.splits)

lemma PyErr_Format_keeps:
  "\<forall>w e. P (w\<lparr>pyerr := e\<rparr>) = P w \<Longrightarrow> P (W (PyErr_Format e m s)) = P (W s)"
  by (simp add: PyErr_Format_def)

lemma reduce_fail_keeps:
  assumes "collaborators_keep P E loop p it r" and "P (W s)" and "reduce_fail E it s = (q, s')"
  shows "P (W s')"
proof -
  have k: "keeps P (NpyIter_Deallocate E it)"
    using assms(1) by (simp add: collaborators_keep_def)
  obtain ok s1 where l: "logged (Call_NpyIter_Deallocate it) (NpyIter_Deallocate E it) s = (ok, s1)"
    by (cases "logged (Call_NpyIter_Deallocate it) (NpyIter_Deallocate E it) s")
  then have "s' = s1" using assms(3) by (simp add: reduce_fail_def)
  then show ?thesis using logged_keeps [OF k assms(2) l] by simp
qed

lemma reduce_finish_keeps:
  assumes "collaborators_keep P E loop p it r" and "P (W s)"
    and "out a \<noteq> Some p" and "r \<noteq> p"
    and "reduce_finish E a it r s = (q, s')"
  shows "P (W s')"
proof -
  have k1: "keeps P (check_ufunc_fperr E (errormask a))"
    and k2: "keeps P (NpyIter_Deallocate E it)"
    and k3: "\<And>x w. x \<noteq> p \<Longrightarrow> P w \<Longrightarrow> P (Py_DECREF E x w)"
    using assms(1) by (simp_all add: collaborators_keep_def)
  let ?res = "case out a of Some x \<Rightarrow> x | None \<Rightarrow> r"
  have np: "?res \<noteq> p"
    using assms(3,4) by (cases "out a") auto
  obtain rc s1 where l1: "logged (Call_check_ufunc_fperr (errormask a))
      (check_ufunc_fperr E (errormask a)) s = (rc, s1)"
    by (cases "logged (Call_check_ufunc_fperr (errormask a)) (check_ufunc_fperr E (errormask a)) s")
  have p1: "P (W s1)" using logged_keeps [OF k1 assms(2) l1] .
  obtain ok s2 where l2: "logged (Call_NpyIter_Deallocate it) (NpyIter_Deallocate E it) s1
      = (ok, s2)"
    by (cases "logged (Call_NpyIter_Deallocate it) (NpyIter_Deallocate E it) s1")
  have p2: "P (W s2)" using logged_keeps [OF k2 p1 l2] .
  consider (f0) "reduce_fail E it s = (q, s')"
    | (f1) "reduce_fail E it s1 = (q, s')"
    | (d) "s' = logged_unit (Call_Py_DECREF ?res) (Py_DECREF E ?res) s2"
    | (ok) "s' = s2"
    using assms(5) l1 l2 by (auto simp: reduce_finish_def Let_def split: if_splits)
  then show ?thesis
  proof cases
    case f0
    then show ?thesis using reduce_fail_keeps [OF assms(1,2)] by simp
  next
    case f1
    then show ?thesis using reduce_fail_keeps [OF assms(1) p1] by simp
  next
    case d
    then show ?thesis using k3 [OF np p2] by (simp add: logged_unit_def)
  next
    case ok
    then show ?thesis using p2 by simp
  qed
qed

lemma reduce_iterate_keeps:
  assumes "collaborators_keep P E loop p it r" and "P (W s)"
    and "out a \<noteq> Some p" and "r \<noteq> p"
    and "reduce_iterate E loop a it r api k s = (q, s')"
  shows "P (W s')"
proof -
  have k1: "keeps P (NpyIter_Reset E it)"
    and k2: "keeps P (NpyIter_GetIterNext E it)"
    and k3: "keeps P (loop it api k (loop_data a))"
    using assms(1) by (simp_all add: collaborators_keep_def)
  obtain ok s1 where l1: "logged (Call_NpyIter_Reset it) (NpyIter_Reset E it) s = (ok, s1)"
    by (cases "logged (Call_NpyIter_Reset it) (NpyIter_Reset E it) s")
  have p1: "P (W s1)" using logged_keeps [OF k1 assms(2) l1] .
  obtain nx s2 where l2: "logged (Call_NpyIter_GetIterNext it) (NpyIter_GetIterNext E it) s1
      = (nx, s2)"
    by (cases "logged (Call_NpyIter_GetIterNext it) (NpyIter_GetIterNext E it) s1")
  have p2: "P (W s2)" using logged_keeps [OF k2 p1 l2] .
  obtain rc s3 where l3: "logged (Call_loop it api k (loop_data a)) (loop it api k (loop_data a)) s2
      = (rc, s3)"
    by (cases "logged (Call_loop it api k (loop_data a)) (loop it api k (loop_data a)) s2")
  have p3: "P (W s3)" using logged_keeps [OF k3 p2 l3] .
  consider (f1) "reduce_fail E it s1 = (q, s')"
    | (f2) "reduce_fail E it s2 = (q, s')"
    | (f3) "reduce_fail E it s3 = (q, s')"
    | (g1) "reduce_finish E a it r s1 = (q, s')"
    | (g3) "reduce_finish E a it r s3 = (q, s')"
    using assms(5) l1 l2 l3 by (auto simp: reduce_iterate_def split: if_splits)
  then show ?thesis
  proof cases
    case f1
    then show ?thesis using reduce_fail_keeps [OF assms(1) p1] by simp
  next
    case f2
    then show ?thesis using reduce_fail_keeps [OF assms(1) p2] by simp
  next
    case f3
    then show ?thesis using reduce_fail_keeps [OF assms(1) p3] by simp
  next
    case g1
    then show ?thesis using reduce_finish_keeps [OF assms(1) p1 assms(3,4)] by simp
  next
    case g3
    then show ?thesis using reduce_finish_keeps [OF assms(1) p3 assms(3,4)] by simp
  qed
qed

lemma seeder_keeps:
  assumes "collaborators_keep P E loop p it r" and "\<forall>w e. P (w\<lparr>pyerr := e\<rparr>) = P w"
    and "P (W s)"
    and "PyArray_CopyInitialReduceValues E r x flgs f kd s = (rc, s')"
  shows "P (W s')"
proof -
  let ?o = "the (heap (W s) x)"
  show ?thesis
  proof (cases "seed_loop flgs (shape ?o) (strides ?o) kd [0..<PyArray_NDIM ?o] ([], [], 1)")
    case None
    then have "s' = PyErr_Format ''ValueError'' (msg_zero_size f) s"
      using assms(4) by (simp add: PyArray_CopyInitialReduceValues_def)
    then show ?thesis using assms(3) by (simp add: PyErr_Format_keeps [OF assms(2)])
  next
    case (Some t)
    obtain shp strd sz where t: "t = (shp, strd, sz)" by (cases t)
    have k1: "keeps P (PyArray_NewFromDescr E (descr ?o) (length shp) shp strd (data ?o) {})"
      and k1': "\<And>w. P w \<Longrightarrow>
        fst (PyArray_NewFromDescr E (descr ?o) (length shp) shp strd (data ?o) {} w) \<noteq> Some p"
      and k3: "\<And>y w. y \<noteq> p \<Longrightarrow> P w \<Longrightarrow> P (Py_DECREF E y w)"
      using assms(1) by (simp_all add: collaborators_keep_def)
    obtain vo s1 where l1: "logged (Call_PyArray_NewFromDescr (descr ?o) (length shp) shp strd
          (data ?o) {})
        (PyArray_NewFromDescr E (descr ?o) (length shp) shp strd (data ?o) {}) s = (vo, s1)"
      by (cases "logged (Call_PyArray_NewFromDescr (descr ?o) (length shp) shp strd (data ?o) {})
        (PyArray_NewFromDescr E (descr ?o) (length shp) shp strd (data ?o) {}) s")
    have p1: "P (W s1)" using logged_keeps [OF k1 assms(3) l1] .
    have vo: "vo \<noteq> Some p"
      using k1' [OF assms(3)] l1 by (auto simp: logged_def split: prod.splits)
    show ?thesis
    proof (cases vo)
      case None
      then have "s' = s1"
        using assms(4) Some t l1 by (simp add: PyArray_CopyInitialReduceValues_def)
      then show ?thesis using p1 by simp
    next
      case (Some view)
      have vp: "view \<noteq> p" using vo Some by simp
      have k2: "keeps P (PyArray_CopyInto E r view)"
        using assms(1) by (simp add: collaborators_keep_def)
      obtain res s2 where l2: "logged (Call_PyArray_CopyInto r view) (PyArray_CopyInto E r view) s1
          = (res, s2)"
        by (cases "logged (Call_PyArray_CopyInto r view) (PyArray_CopyInto E r view) s1")
      have p2: "P (W s2)" using logged_keeps [OF k2 p1 l2] .
      have "s' = logged_unit (Call_Py_DECREF view) (Py_DECREF E view) s2"
        using assms(4) \<open>seed_loop flgs (shape ?o) (strides ?o) kd [0..<PyArray_NDIM ?o] ([], [], 1)
          = Some t\<close> t l1 Some l2
        by (auto simp: PyArray_CopyInitialReduceValues_def Let_def split: if_splits)
      then show ?thesis using k3 [OF vp p2] by (simp add: logged_unit_def)
    qed
  qed
qed

lemma reduce_seed_keeps:
  assumes "collaborators_keep P E loop p it (NpyIter_GetOperandArray E it (W s) ! 0)"
    and "\<forall>w e. P (w\<lparr>pyerr := e\<rparr>) = P w"
    and "P (W s)"
    and "out a \<noteq> Some p" and "NpyIter_GetOperandArray E it (W s) ! 0 \<noteq> p"
    and "reduce_seed E loop a it s = (q, s')"
  shows "P (W s')"
proof -
  let ?r = "NpyIter_GetOperandArray E it (W s) ! 0"
  let ?api = "NpyIter_IterationNeedsAPI E it (W s)"
  let ?s1 = "logged_unit Call_npy_clear_floatstatus_barrier (npy_clear_floatstatus_barrier E) s"
  have "\<And>w. P w \<Longrightarrow> P (npy_clear_floatstatus_barrier E w)"
    using assms(1) by (simp add: collaborators_keep_def)
  then have p1: "P (W ?s1)" using assms(3) by (simp add: logged_unit_def)
  show ?thesis
  proof (cases "identity a")
    case (Some v)
    have k: "keeps P (PyArray_FillWithScalar E ?r v)"
      using assms(1) by (simp add: collaborators_keep_def)
    obtain rc s2 where l2: "logged (Call_PyArray_FillWithScalar ?r v)
        (PyArray_FillWithScalar E ?r v) ?s1 = (rc, s2)"
      by (cases "logged (Call_PyArray_FillWithScalar ?r v) (PyArray_FillWithScalar E ?r v) ?s1")
    have p2: "P (W s2)" using logged_keeps [OF k p1 l2] .
    consider (f) "reduce_fail E it s2 = (q, s')"
      | (g) "reduce_iterate E loop a it ?r ?api 0 s2 = (q, s')"
      using assms(6) Some l2 by (auto simp: reduce_seed_def Let_def split: if_splits)
    then show ?thesis
    proof cases
      case f
      then show ?thesis using reduce_fail_keeps [OF assms(1) p2] by simp
    next
      case g
      then show ?thesis using reduce_iterate_keeps [OF assms(1) p2 assms(4,5)] by simp
    qed
  next
    case None
    obtain k s2 where l2: "PyArray_CopyInitialReduceValues E ?r (operand a) (axis_flags a)
        (funcname a) (keepdims a) ?s1 = (k, s2)"
      by (cases "PyArray_CopyInitialReduceValues E ?r (operand a) (axis_flags a)
        (funcname a) (keepdims a) ?s1")
    have p2: "P (W s2)" using seeder_keeps [OF assms(1,2) p1 l2] .
    consider (f) "reduce_fail E it s2 = (q, s')"
      | (g) "reduce_iterate E loop a it ?r ?api k s2 = (q, s')"
      using assms(6) None l2 by (auto simp: reduce_seed_def Let_def split: if_splits)
    then show ?thesis
    proof cases
      case f
      then show ?thesis using reduce_fail_keeps [OF assms(1) p2] by simp
    next
      case g
      then show ?thesis using reduce_iterate_keeps [OF assms(1) p2 assms(4,5)] by simp
    qed
  qed
qed

lemma reduce_keeps:
  assumes "\<forall>w e. P (w\<lparr>pyerr := e\<rparr>) = P w"
    and "keeps P (NpyIter_AdvancedNew E (driver_request (W s) a))"
    and "\<forall>it w_new. NpyIter_AdvancedNew E (driver_request (W s) a) (W s) = (Some it, w_new)
          \<longrightarrow> NpyIter_GetOperandArray E it w_new ! 0 \<noteq> p
              \<and> collaborators_keep P E loop p it (NpyIter_GetOperandArray E it w_new ! 0)"
    and "out a \<noteq> Some p"
    and "P (W s)"
    and "PyUFunc_ReduceWrapper E loop a s = (q, s')"
  shows "P (W s')"
proof -
  let ?n = "PyArray_NDIM (the (heap (W s) (operand a)))"
  obtain ra ca where rl: "result_axes_loop (axis_flags a) (keepdims a) [0..<?n] ([], 0) = (ra, ca)"
    by (cases "result_axes_loop (axis_flags a) (keepdims a) [0..<?n] ([], 0)")
  let ?req = "reduce_request (W s) a ra"
  have rq: "driver_request (W s) a = ?req"
    using rl by (simp add: driver_request_def)
  have k: "keeps P (NpyIter_AdvancedNew E ?req)"
    using assms(2) rq by simp
  obtain io w_new where n1: "NpyIter_AdvancedNew E ?req (W s) = (io, w_new)"
    by (cases "NpyIter_AdvancedNew E ?req (W s)")
  let ?s1 = "\<lparr>W = w_new, calls = calls s @ [Call_NpyIter_AdvancedNew ?req]\<rparr>"
  have l1: "logged (Call_NpyIter_AdvancedNew ?req) (NpyIter_AdvancedNew E ?req) s = (io, ?s1)"
    using n1 by (simp add: logged_def)
  have p1: "P (W ?s1)" using logged_keeps [OF k assms(5) l1] .
  consider (e) e m where "s' = PyErr_Format e m s"
    | (n) "s' = ?s1"
    | (i) it where "io = Some it" "reduce_seed E loop a it ?s1 = (q, s')"
    using assms(6) rl l1
    by (auto simp: PyUFunc_ReduceWrapper_def Let_def split: if_splits option.splits)
  then show ?thesis
  proof cases
    case e
    then show ?thesis using assms(5) by (simp add: PyErr_Format_keeps [OF assms(1)])
  next
    case n
    then show ?thesis using p1 by simp
  next
    case i
    have b: "NpyIter_GetOperandArray E it (W ?s1) ! 0 \<noteq> p"
      and ck: "collaborators_keep P E loop p it (NpyIter_GetOperandArray E it (W ?s1) ! 0)"
      using assms(3) n1 i(1) rq by simp_all
    show ?thesis using reduce_seed_keeps [OF ck assms(1) p1 assms(4) b i(2)] .
  qed
qed

subsection \<open>The operand is only read\<close>

lemma reduce_request_operand_slot:
  assumes "out a \<noteq> Some (operand a)"
    and "j < length (op (reduce_request w a ra))"
    and "op (reduce_request w a ra) ! j = Some (operand a)"
  shows "NPY_ITER_READONLY \<in> op_flags (reduce_request w a ra) ! j
       \<and> NPY_ITER_READWRITE \<notin> op_flags (reduce_request w a ra) ! j
       \<and> NPY_ITER_WRITEONLY \<notin> op_flags (reduce_request w a ra) ! j"
proof (cases "wheremask a")
  case None
  then have "j = 0 \<or> j = 1"
    using assms(2) by (auto simp: reduce_request_def)
  then show ?thesis
    using assms(1,3) None by (auto simp: reduce_request_def)
next
  case (Some m)
  then have "j = 0 \<or> j = 1 \<or> j = 2"
    using assms(2) by (auto simp: reduce_request_def)
  then show ?thesis
    using assms(1,3) Some by (auto simp: reduce_request_def)
qed

lemma map_of_zip_not_key: "c \<notin> set ks \<Longrightarrow> map_of (zip ks vs) c = None"
  by (auto simp: map_of_eq_None_iff dest: set_zip_leftD)

lemma write_cells_heap: "heap (write_cells cvs w) = heap w"
  by (simp add: write_cells_def)

lemma write_cells_mem_other:
  "c \<notin> fst ` set cvs \<Longrightarrow> mem (extra (write_cells cvs w)) c = mem (extra w) c"
proof -
  assume "c \<notin> fst ` set cvs"
  then have "map_of cvs c = None" by (simp add: map_of_eq_None_iff)
  then show ?thesis by (simp add: write_cells_def)
qed

text \<open>
  C8, as stated, fails: the caller may pass the operand itself as the output array (here
  an operand of shape \<open>[1]\<close>, reduced with \<open>keepdims\<close>). The driver then binds the
  operand to the iterator a second time, as operand 0 with \<^verbatim>\<open>NPY_ITER_READWRITE\<close>, the
  slot through which the result is written.
\<close>

theorem reduce_operand_read_only_counterexample:
  "out (mk_args 1 (Some 1) None [True] True True (Some 0))
     = Some (operand (mk_args 1 (Some 1) None [True] True True (Some 0)))
   \<and> hd (calls (snd (PyUFunc_ReduceWrapper (stub_ext 5 1) stub_loop
           (mk_args 1 (Some 1) None [True] True True (Some 0)) ex_unit_state)))
     = Call_NpyIter_AdvancedNew
         (driver_request (W ex_unit_state) (mk_args 1 (Some 1) None [True] True True (Some 0)))
   \<and> op (driver_request (W ex_unit_state) (mk_args 1 (Some 1) None [True] True True (Some 0))) ! 0
     = Some (operand (mk_args 1 (Some 1) None [True] True True (Some 0)))
   \<and> NPY_ITER_READWRITE \<in> op_flags (driver_request (W ex_unit_state)
            (mk_args 1 (Some 1) None [True] True True (Some 0))) ! 0"
  by (simp add: run_defs ex_defs driver_request_def)

text \<open>
  C8, amended. In every call whose output array is not the operand itself, successful or
  not, each request the engine makes treats the operand as read-only: wherever the
  operand is bound to the iterator its flags hold \<^verbatim>\<open>NPY_ITER_READONLY\<close> and neither
  \<^verbatim>\<open>NPY_ITER_READWRITE\<close> nor \<^verbatim>\<open>NPY_ITER_WRITEONLY\<close>; the view the seeder builds is
  created without \<^verbatim>\<open>NPY_ARRAY_WRITEABLE\<close>; and when the result of the iterator that
  this call created is not the operand, the operand is never the destination of a fill
  or of a copy.

  The engine writes nothing itself but the error indicator. So a property of the world
  that does not look at the error indicator (the operand's shape, strides, descriptor
  and element data being what they were) still holds when the driver returns, provided
  the collaborators keep it as this call uses them: the iterator's construction for the
  request of this call, and, on the iterator it created and with that iterator's result
  as the destination of the fill and the copy, the other collaborators. An output array
  or a result that shares the operand's storage is thereby left out: the fill, the copy
  or the accumulation then change the operand's data.
\<close>

theorem reduce_operand_read_only:
  assumes "out a \<noteq> Some (operand a)"
    and "PyUFunc_ReduceWrapper E loop a s = (q, s')"
  shows "(\<forall>c\<in>set (new_calls s s').
            (\<forall>req j. c = Call_NpyIter_AdvancedNew req \<and> j < length (op req)
                \<and> op req ! j = Some (operand a)
              \<longrightarrow> NPY_ITER_READONLY \<in> op_flags req ! j
                  \<and> NPY_ITER_READWRITE \<notin> op_flags req ! j
                  \<and> NPY_ITER_WRITEONLY \<notin> op_flags req ! j)
          \<and> (\<forall>d nd shp strd dat fl. c = Call_PyArray_NewFromDescr d nd shp strd dat fl
              \<longrightarrow> NPY_ARRAY_WRITEABLE \<notin> fl)
          \<and> (\<forall>it w_new.
                NpyIter_AdvancedNew E (driver_request (W s) a) (W s) = (Some it, w_new)
                \<and> NpyIter_GetOperandArray E it w_new ! 0 \<noteq> operand a
              \<longrightarrow> (\<forall>v. c \<noteq> Call_PyArray_FillWithScalar (operand a) v)
                  \<and> (\<forall>src. c \<noteq> Call_PyArray_CopyInto (operand a) src)))
     \<and> ((\<forall>w e. P (w\<lparr>pyerr := e\<rparr>) = P w)
          \<and> keeps P (NpyIter_AdvancedNew E (driver_request (W s) a))
          \<and> (\<forall>it w_new.
                NpyIter_AdvancedNew E (driver_request (W s) a) (W s) = (Some it, w_new)
              \<longrightarrow> NpyIter_GetOperandArray E it w_new ! 0 \<noteq> operand a
                  \<and> collaborators_keep P E loop (operand a) it
                        (NpyIter_GetOperandArray E it w_new ! 0))
          \<and> P (W s)
        \<longrightarrow> P (W s'))"
proof -
  have calls: "(\<forall>req j. c = Call_NpyIter_AdvancedNew req \<and> j < length (op req)
                \<and> op req ! j = Some (operand a)
              \<longrightarrow> NPY_ITER_READONLY \<in> op_flags req ! j
                  \<and> NPY_ITER_READWRITE \<notin> op_flags req ! j
                  \<and> NPY_ITER_WRITEONLY \<notin> op_flags req ! j)
          \<and> (\<forall>d nd shp strd dat fl. c = Call_PyArray_NewFromDescr d nd shp strd dat fl
              \<longrightarrow> NPY_ARRAY_WRITEABLE \<notin> fl)
          \<and> (\<forall>it w_new.
                NpyIter_AdvancedNew E (driver_request (W s) a) (W s) = (Some it, w_new)
                \<and> NpyIter_GetOperandArray E it w_new ! 0 \<noteq> operand a
              \<longrightarrow> (\<forall>v. c \<noteq> Call_PyArray_FillWithScalar (operand a) v)
                  \<and> (\<forall>src. c \<noteq> Call_PyArray_CopyInto (operand a) src))"
    if c: "c \<in> set (new_calls s s')" for c
  proof -
    have ne: "new_calls s s' \<noteq> []" using c by auto
    from reduce_calls [OF assms(2)] ne
    obtain ra ca it0 w0 cs where
      rl: "result_axes_loop (axis_flags a) (keepdims a)
             [0..<PyArray_NDIM (the (heap (W s) (operand a)))] ([], 0) = (ra, ca)"
      and nc: "new_calls s s' = Call_NpyIter_AdvancedNew (reduce_request (W s) a ra) # cs"
      and cs: "cs = [] \<or>
          NpyIter_AdvancedNew E (reduce_request (W s) a ra) (W s) = (Some it0, w0)
          \<and> (\<forall>c\<in>set cs. driver_call_ok a it0 (NpyIter_GetOperandArray E it0 w0 ! 0) c)"
      by blast
    have rq: "driver_request (W s) a = reduce_request (W s) a ra"
      using rl by (simp add: driver_request_def)
    consider (req) "c = Call_NpyIter_AdvancedNew (reduce_request (W s) a ra)"
      | (rest) "c \<in> set cs"
          "NpyIter_AdvancedNew E (driver_request (W s) a) (W s) = (Some it0, w0)"
          "driver_call_ok a it0 (NpyIter_GetOperandArray E it0 w0 ! 0) c"
      using c nc cs rq by auto
    then show ?thesis
    proof cases
      case req
      then show ?thesis
        using reduce_request_operand_slot [OF assms(1)] by auto
    next
      case rest
      show ?thesis
      proof (intro conjI allI impI)
        fix req j
        assume "c = Call_NpyIter_AdvancedNew req \<and> j < length (op req)
          \<and> op req ! j = Some (operand a)"
        then have False using rest(3) by simp
        then show "NPY_ITER_READONLY \<in> op_flags req ! j"
          and "NPY_ITER_READWRITE \<notin> op_flags req ! j"
          and "NPY_ITER_WRITEONLY \<notin> op_flags req ! j"
          by simp_all
      next
        fix d nd shp strd dat fl
        assume "c = Call_PyArray_NewFromDescr d nd shp strd dat fl"
        then show "NPY_ARRAY_WRITEABLE \<notin> fl" using rest(3) by simp
      next
        fix it w_new v
        assume h: "NpyIter_AdvancedNew E (driver_request (W s) a) (W s) = (Some it, w_new)
          \<and> NpyIter_GetOperandArray E it w_new ! 0 \<noteq> operand a"
        then have "it = it0" "w_new = w0" using rest(2) by simp_all
        then show "c \<noteq> Call_PyArray_FillWithScalar (operand a) v"
          using rest(3) h by auto
      next
        fix it w_new src
        assume h: "NpyIter_AdvancedNew E (driver_request (W s) a) (W s) = (Some it, w_new)
          \<and> NpyIter_GetOperandArray E it w_new ! 0 \<noteq> operand a"
        then have "it = it0" "w_new = w0" using rest(2) by simp_all
        then show "c \<noteq> Call_PyArray_CopyInto (operand a) src"
          using rest(3) h by auto
      qed
    qed
  qed
  have "P (W s')"
    if "\<forall>w e. P (w\<lparr>pyerr := e\<rparr>) = P w"
      and "keeps P (NpyIter_AdvancedNew E (driver_request (W s) a))"
      and "\<forall>it w_new.
                NpyIter_AdvancedNew E (driver_request (W s) a) (W s) = (Some it, w_new)
              \<longrightarrow> NpyIter_GetOperandArray E it w_new ! 0 \<noteq> operand a
                  \<and> collaborators_keep P E loop (operand a) it
                        (NpyIter_GetOperandArray E it w_new ! 0)"
      and "P (W s)"
    using reduce_keeps [OF that(1,2,3) assms(1) that(4) assms(2)] .
  then show ?thesis using calls by blast
qed

lemmas mem_defs = mem_ext_def idle_loop_def mk_mem_state_def ex_col_mem_def ex_empty_mem_def
  write_cells_def cells_of_def elements_of_def elements_at_def mk_array_def mk_args_def Let_def

lemma cells_at_row3: "cells_at [3] [8] d = [d, d + 8, d + 16]"
  by (simp add: cells_at_def offset_def upt_rec)

lemma cells_at_col3: "cells_at [3, 1] [8, 8] d = [d, d + 8, d + 16]"
  by (simp add: cells_at_def offset_def upt_rec)

text \<open>
  The witness is a reduction without identity of the column \<open>[5, 2, 9]\<close> at address 1
  into the output array at address 2, with collaborators that write the memory: the
  copy puts \<open>[5, 2, 9]\<close> where \<open>[7, 7, 7]\<close> was, and the operand is as it was.
\<close>

theorem reduce_operand_read_only_witness:
  "out (mk_args 1 (Some 2) None [False, True] True False None)
     \<noteq> Some (operand (mk_args 1 (Some 2) None [False, True] True False None))
   \<and> new_calls ex_col_mem (snd (PyUFunc_ReduceWrapper (mem_ext 2 3) idle_loop
           (mk_args 1 (Some 2) None [False, True] True False None) ex_col_mem))
     = [Call_NpyIter_AdvancedNew
          (driver_request (W ex_col_mem) (mk_args 1 (Some 2) None [False, True] True False None)),
        Call_npy_clear_floatstatus_barrier,
        Call_PyArray_NewFromDescr 7 1 [3] [8] 1000 {}, Call_PyArray_CopyInto 2 99,
        Call_Py_DECREF 99, Call_NpyIter_Reset 0, Call_NpyIter_GetIterNext 0,
        Call_loop 0 False 3 0, Call_check_ufunc_fperr 0, Call_NpyIter_Deallocate 0]
   \<and> op (driver_request (W ex_col_mem)
           (mk_args 1 (Some 2) None [False, True] True False None)) ! 1 = Some 1
   \<and> NPY_ITER_READONLY \<in> op_flags (driver_request (W ex_col_mem)
           (mk_args 1 (Some 2) None [False, True] True False None)) ! 1
   \<and> NPY_ITER_READWRITE \<notin> op_flags (driver_request (W ex_col_mem)
           (mk_args 1 (Some 2) None [False, True] True False None)) ! 1
   \<and> NPY_ARRAY_WRITEABLE \<notin> ({} :: array_flag set)
   \<and> NpyIter_AdvancedNew (mem_ext 2 3)
         (driver_request (W ex_col_mem) (mk_args 1 (Some 2) None [False, True] True False None))
         (W ex_col_mem) = (Some 0, W ex_col_mem)
   \<and> NpyIter_GetOperandArray (mem_ext 2 3) 0 (W ex_col_mem) ! 0 \<noteq> 1
   \<and> Call_PyArray_CopyInto 2 99 \<noteq> Call_PyArray_CopyInto 1 99
   \<and> elements_of (W ex_col_mem) 1 = [5, 2, 9]
   \<and> elements_of (W ex_col_mem) 2 = [7, 7, 7]
   \<and> elements_of (W (snd (PyUFunc_ReduceWrapper (mem_ext 2 3) idle_loop
           (mk_args 1 (Some 2) None [False, True] True False None) ex_col_mem))) 2 = [5, 2, 9]
   \<and> heap (W (snd (PyUFunc_ReduceWrapper (mem_ext 2 3) idle_loop
           (mk_args 1 (Some 2) None [False, True] True False None) ex_col_mem))) 1
      = Some (mk_array [3, 1] [8, 8] 1000)
   \<and> elements_of (W (snd (PyUFunc_ReduceWrapper (mem_ext 2 3) idle_loop
           (mk_args 1 (Some 2) None [False, True] True False None) ex_col_mem))) 1 = [5, 2, 9]"
proof -
  let ?A = "mk_args 1 (Some 2) None [False, True] True False None"
  let ?E = "mem_ext 2 3"
  let ?R = "PyUFunc_ReduceWrapper ?E idle_loop ?A ex_col_mem"
  let ?req = "driver_request (W ex_col_mem) ?A"
  let ?P = "\<lambda>w :: int store world. heap w 1 = Some (mk_array [3, 1] [8, 8] 1000)
      \<and> heap w 2 = Some (mk_array [3] [8] 2000) \<and> elements_of w 1 = [5, 2, 9]"
  have o1: "operand ?A = 1" by (simp add: mk_args_def)
  have o: "out ?A \<noteq> Some (operand ?A)" by (simp add: mk_args_def)
  have run: "?R = (fst ?R, snd ?R)" by simp
  have rq: "?req = reduce_request (W ex_col_mem) ?A [Axis 0, NPY_ITER_REDUCTION_AXIS (- 1)]"
    by (simp add: driver_request_def mem_defs PyArray_NDIM_def)
  have nc: "new_calls ex_col_mem (snd ?R) =
      [Call_NpyIter_AdvancedNew ?req, Call_npy_clear_floatstatus_barrier,
       Call_PyArray_NewFromDescr 7 1 [3] [8] 1000 {}, Call_PyArray_CopyInto 2 99,
       Call_Py_DECREF 99, Call_NpyIter_Reset 0, Call_NpyIter_GetIterNext 0,
       Call_loop 0 False 3 0, Call_check_ufunc_fperr 0, Call_NpyIter_Deallocate 0]"
    unfolding rq by (simp add: run_defs mem_defs cells_at_row3 cells_at_col3)
  have m1: "Call_NpyIter_AdvancedNew ?req \<in> set (new_calls ex_col_mem (snd ?R))"
    and m2: "Call_PyArray_NewFromDescr 7 1 [3] [8] 1000 {} \<in> set (new_calls ex_col_mem (snd ?R))"
    and m3: "Call_PyArray_CopyInto 2 99 \<in> set (new_calls ex_col_mem (snd ?R))"
    by (simp_all only: nc list.set insert_iff simp_thms)
  have j1: "1 < length (op ?req)"
    unfolding rq by (simp add: reduce_request_def mk_args_def)
  have j2: "op ?req ! 1 = Some 1"
    unfolding rq by (simp add: reduce_request_def mk_args_def)
  have an: "NpyIter_AdvancedNew ?E ?req (W ex_col_mem) = (Some 0, W ex_col_mem)"
    by (simp add: mem_ext_def)
  have b0: "NpyIter_GetOperandArray ?E 0 (W ex_col_mem) ! 0 \<noteq> 1"
    by (simp add: mem_ext_def)
  have b: "NpyIter_AdvancedNew ?E ?req (W ex_col_mem) = (Some 0, W ex_col_mem)
      \<and> NpyIter_GetOperandArray ?E 0 (W ex_col_mem) ! 0 \<noteq> operand ?A"
    using an b0 o1 by simp
  have e1: "elements_of (W ex_col_mem) 1 = [5, 2, 9]"
    by (simp add: elements_of_def cells_of_def ex_col_mem_def mk_mem_state_def mk_array_def
        cells_at_col3)
  have e2: "elements_of (W ex_col_mem) 2 = [7, 7, 7]"
    by (simp add: elements_of_def cells_of_def ex_col_mem_def mk_mem_state_def mk_array_def
        cells_at_row3)
  have p0: "?P (W ex_col_mem)"
    using e1 by (simp add: ex_col_mem_def mk_mem_state_def)
  have pe: "\<forall>w e. ?P (w\<lparr>pyerr := e\<rparr>) = ?P w"
    by (simp add: elements_of_def cells_of_def)
  have ka: "keeps ?P (NpyIter_AdvancedNew ?E ?req)"
    by (simp add: keeps_def mem_ext_def)
  have wr: "?P (write_cells cvs w)" if "?P w" and "fst ` set cvs \<subseteq> {2000, 2008, 2016}"
    for w :: "int store world" and cvs
  proof -
    have c1: "cells_of (write_cells cvs w) 1 = [1000, 1008, 1016]"
      using that(1) by (simp add: cells_of_def write_cells_heap mk_array_def cells_at_col3)
    have c1': "cells_of w 1 = [1000, 1008, 1016]"
      using that(1) by (simp add: cells_of_def mk_array_def cells_at_col3)
    have "mem (extra (write_cells cvs w)) c = mem (extra w) c"
      if "c \<in> {1000, 1008, 1016}" for c
      using that \<open>fst ` set cvs \<subseteq> {2000, 2008, 2016}\<close>
      by (intro write_cells_mem_other) auto
    then have "elements_of (write_cells cvs w) 1 = elements_of w 1"
      using c1 c1' by (simp add: elements_of_def)
    then show ?thesis using that(1) by (simp add: write_cells_heap)
  qed
  have c2: "cells_of w 2 = [2000, 2008, 2016]" if "?P w" for w :: "int store world"
    using that by (simp add: cells_of_def mk_array_def cells_at_row3)
  have kf: "keeps ?P (PyArray_FillWithScalar ?E 2 v)" for v
    unfolding keeps_def
  proof (intro allI impI)
    fix w :: "int store world"
    assume pw: "?P w"
    have "fst ` set (map (\<lambda>c. (c, v)) (cells_of w 2)) \<subseteq> {2000, 2008, 2016}"
      using c2 [OF pw] by auto
    then show "?P (snd (PyArray_FillWithScalar ?E 2 v w))"
      using wr [OF pw] by (simp add: mem_ext_def)
  qed
  have kc: "keeps ?P (PyArray_CopyInto ?E 2 src)" for src
    unfolding keeps_def
  proof (intro allI impI)
    fix w :: "int store world"
    assume pw: "?P w"
    have "fst ` set (zip (cells_of w 2) (elements_of w src)) \<subseteq> {2000, 2008, 2016}"
      using c2 [OF pw] by (auto dest: set_zip_leftD)
    then show "?P (snd (PyArray_CopyInto ?E 2 src w))"
      using wr [OF pw] by (simp add: mem_ext_def)
  qed
  have kv: "keeps ?P (PyArray_NewFromDescr ?E d nd shp strd dat {})" for d nd shp strd dat
    by (auto simp add: keeps_def mem_ext_def elements_of_def cells_of_def)
  have ck: "collaborators_keep ?P ?E idle_loop 1 0 2"
    unfolding collaborators_keep_def
    using kf kc kv by (simp add: keeps_def mem_ext_def idle_loop_def)
  have h3: "\<forall>it w_new. NpyIter_AdvancedNew ?E ?req (W ex_col_mem) = (Some it, w_new)
      \<longrightarrow> NpyIter_GetOperandArray ?E it w_new ! 0 \<noteq> operand ?A
          \<and> collaborators_keep ?P ?E idle_loop (operand ?A) it
               (NpyIter_GetOperandArray ?E it w_new ! 0)"
  proof (intro allI impI)
    fix it w_new
    assume "NpyIter_AdvancedNew ?E ?req (W ex_col_mem) = (Some it, w_new)"
    then have "it = 0" by (simp add: mem_ext_def)
    moreover have "NpyIter_GetOperandArray ?E it w_new ! 0 = 2" by (simp add: mem_ext_def)
    ultimately show "NpyIter_GetOperandArray ?E it w_new ! 0 \<noteq> operand ?A
          \<and> collaborators_keep ?P ?E idle_loop (operand ?A) it
               (NpyIter_GetOperandArray ?E it w_new ! 0)"
      using ck o1 by simp
  qed
  note t = reduce_operand_read_only [OF o run, where P = ?P]
  note tc = t [THEN conjunct1, THEN bspec]
  have r1: "NPY_ITER_READONLY \<in> op_flags ?req ! 1"
    and r1': "NPY_ITER_READWRITE \<notin> op_flags ?req ! 1"
    using tc [OF m1, THEN conjunct1, rule_format, of ?req 1] j1 j2 o1 by simp_all
  have r2: "NPY_ARRAY_WRITEABLE \<notin> ({} :: array_flag set)"
    using tc [OF m2, THEN conjunct2, THEN conjunct1, rule_format, of 7 1 "[3]" "[8]" 1000 "{}"]
    by simp
  have r3: "Call_PyArray_CopyInto 2 99 \<noteq> Call_PyArray_CopyInto 1 99"
    using tc [OF m3, THEN conjunct2, THEN conjunct2, THEN spec, THEN spec, THEN mp, OF b,
        THEN conjunct2, THEN spec, of 99] o1
    by simp
  have r4: "?P (W (snd ?R))"
    using t [THEN conjunct2, THEN mp] pe ka h3 p0 by blast
  have r4a: "heap (W (snd ?R)) 1 = Some (mk_array [3, 1] [8, 8] 1000)"
    and r4b: "elements_of (W (snd ?R)) 1 = [5, 2, 9]"
    using r4 by simp_all
  have e3: "elements_of (W (snd ?R)) 2 = [5, 2, 9]"
    by (simp add: run_defs mem_defs cells_at_row3 cells_at_col3)
  have o': "out ?A \<noteq> Some (operand ?A)" by (rule o)
  show ?thesis
    by (intro conjI) (fact o' nc j2 r1 r1' r2 an b0 r3 e1 e2 e3 r4a r4b)+
qed

subsection \<open>A reduced axis of extent 0, once the iterator exists\<close>

text \<open>
  C1, amended. Take an operand with a flagged axis of extent 0 and an axis-flag vector
  with one flag per axis, in a call that passes the checks made before the iterator
  exists (the reduction is reorderable or has at most one flagged axis, a where-mask
  comes with an identity, a given output array has the rank of the result), and let the
  iterator be constructed: \<open>it\<close>, with the result \<open>r\<close> as its first operand.

  Without identity, if the operand's header is still in place when the seeder reads it,
  the driver sets \<open>EmptyReductionError\<close> with the operation's name, releases the iterator
  and returns \<^verbatim>\<open>NULL\<close>, having asked nothing else of its collaborators; the error is
  pending on return if it is pending when the release returns.

  With an identity \<open>v\<close>, if the fill succeeds and leaves the \<open>n\<close> elements of \<open>r\<close> equal
  to \<open>v\<close>, the reset succeeds, the iterator's size is the number of elements of the
  operand, no error is pending, the floating-point check and the release succeed, and
  the returned array holds after the release what the fill left in \<open>r\<close>, then the driver
  returns the output array if one was given and \<open>r\<close> otherwise, the callback is not
  called, and each of the \<open>n\<close> elements of the returned array is \<open>v\<close>.
\<close>

theorem reduce_empty_reduction:
  assumes "heap (W s) (operand a) = Some opnd"
    and "length (axis_flags a) = PyArray_NDIM opnd"
    and "i < PyArray_NDIM opnd"
    and "axis_flags a ! i"
    and "shape opnd ! i = 0"
    and "reorderable a \<or> length (filter id (axis_flags a)) \<le> 1"
    and "wheremask a = None \<or> identity a \<noteq> None"
    and "\<forall>p. out a = Some p \<longrightarrow> (\<exists>outp. heap (W s) p = Some outp \<and> PyArray_NDIM outp =
           (if keepdims a then PyArray_NDIM opnd
            else PyArray_NDIM opnd - length (filter id (axis_flags a))))"
    and "NpyIter_AdvancedNew E (driver_request (W s) a) (W s) = (Some it, w_new)"
    and "r = NpyIter_GetOperandArray E it w_new ! 0"
    and "w_clr = npy_clear_floatstatus_barrier E w_new"
  shows "(identity a = None \<and> heap w_clr (operand a) = Some opnd
            \<and> NpyIter_Deallocate E it
                 (w_clr\<lparr>pyerr := Some (EmptyReductionError (funcname a))\<rparr>) = (ok, w_rel)
          \<longrightarrow> PyUFunc_ReduceWrapper E loop a s =
                (None, \<lparr>W = w_rel,
                        calls = calls s @ [Call_NpyIter_AdvancedNew (driver_request (W s) a),
                                           Call_npy_clear_floatstatus_barrier,
                                           Call_NpyIter_Deallocate it]\<rparr>)
              \<and> (pyerr w_rel = Some (EmptyReductionError (funcname a))
                  \<longrightarrow> pyerr (W (snd (PyUFunc_ReduceWrapper E loop a s)))
                        = Some (EmptyReductionError (funcname a))))
       \<and> (identity a = Some v
            \<and> PyArray_FillWithScalar E r v w_clr = (rc, w_fill) \<and> 0 \<le> rc
            \<and> elements_of w_fill r = replicate n v
            \<and> NpyIter_Reset E it w_fill = (True, w_reset)
            \<and> NpyIter_GetIterSize E it w_reset = prod_list (shape opnd)
            \<and> pyerr w_reset = None
            \<and> check_ufunc_fperr E (errormask a) w_reset = (rc', w_fp) \<and> 0 \<le> rc'
            \<and> NpyIter_Deallocate E it w_fp = (True, w_end)
            \<and> elements_of w_end (case out a of Some p \<Rightarrow> p | None \<Rightarrow> r) = elements_of w_fill r
          \<longrightarrow> PyUFunc_ReduceWrapper E loop a s =
                (Some (case out a of Some p \<Rightarrow> p | None \<Rightarrow> r),
                 \<lparr>W = w_end,
                  calls = calls s @ [Call_NpyIter_AdvancedNew (driver_request (W s) a),
                                     Call_npy_clear_floatstatus_barrier,
                                     Call_PyArray_FillWithScalar r v,
                                     Call_NpyIter_Reset it,
                                     Call_check_ufunc_fperr (errormask a),
                                     Call_NpyIter_Deallocate it]\<rparr>)
              \<and> elements_of w_end (case out a of Some p \<Rightarrow> p | None \<Rightarrow> r) = replicate n v)"
proof -
  let ?req = "driver_request (W s) a"
  let ?s1 = "\<lparr>W = w_new, calls = calls s @ [Call_NpyIter_AdvancedNew ?req]\<rparr>"
  let ?s2 = "\<lparr>W = w_clr, calls = calls s @ [Call_NpyIter_AdvancedNew ?req,
      Call_npy_clear_floatstatus_barrier]\<rparr>"
  have rq: "?req = reduce_request (W s) a
      (fst (result_axes_loop (axis_flags a) (keepdims a) [0..<PyArray_NDIM opnd] ([], 0)))"
    using assms(1) by (simp add: driver_request_def)
  have l: "logged (Call_NpyIter_AdvancedNew ?req) (NpyIter_AdvancedNew E ?req) s = (Some it, ?s1)"
    using assms(9) by (simp add: logged_def)
  have run: "PyUFunc_ReduceWrapper E loop a s = reduce_seed E loop a it ?s1"
    using reduce_past_checks [OF assms(1,2,6,7,8) rq, of E loop] l by simp
  have clr: "logged_unit Call_npy_clear_floatstatus_barrier (npy_clear_floatstatus_barrier E) ?s1
      = ?s2"
    using assms(11) by (simp add: logged_unit_def)
  have z: "prod_list (shape opnd) = 0"
    using assms(3,5) by (intro prod_list_zero_int) (metis PyArray_NDIM_def nth_mem)
  have h1: "PyUFunc_ReduceWrapper E loop a s =
                (None, \<lparr>W = w_rel,
                        calls = calls s @ [Call_NpyIter_AdvancedNew ?req,
                                           Call_npy_clear_floatstatus_barrier,
                                           Call_NpyIter_Deallocate it]\<rparr>)"
    if "identity a = None" and "heap w_clr (operand a) = Some opnd"
      and "NpyIter_Deallocate E it
             (w_clr\<lparr>pyerr := Some (EmptyReductionError (funcname a))\<rparr>) = (ok, w_rel)"
  proof -
    have hp: "heap (W ?s2) (operand a) = Some opnd" using that(2) by simp
    have sd: "PyArray_CopyInitialReduceValues E r (operand a) (axis_flags a) (funcname a)
        (keepdims a) ?s2 = (- 1, PyErr_Format ''ValueError'' (msg_zero_size (funcname a)) ?s2)"
      by (rule seeder_empty_run [OF hp assms(3,4,5)])
    show ?thesis
      unfolding run reduce_seed_def Let_def clr
      using that(1,3) sd
      by (simp add: assms(10) [symmetric] reduce_fail_def logged_def PyErr_Format_def EmptyReductionError_def)
  qed
  have h2: "PyUFunc_ReduceWrapper E loop a s =
                (Some (case out a of Some p \<Rightarrow> p | None \<Rightarrow> r),
                 \<lparr>W = w_end,
                  calls = calls s @ [Call_NpyIter_AdvancedNew ?req,
                                     Call_npy_clear_floatstatus_barrier,
                                     Call_PyArray_FillWithScalar r v,
                                     Call_NpyIter_Reset it,
                                     Call_check_ufunc_fperr (errormask a),
                                     Call_NpyIter_Deallocate it]\<rparr>)"
    if "identity a = Some v" and "PyArray_FillWithScalar E r v w_clr = (rc, w_fill)" and "0 \<le> rc"
      and "NpyIter_Reset E it w_fill = (True, w_reset)"
      and "NpyIter_GetIterSize E it w_reset = prod_list (shape opnd)"
      and "pyerr w_reset = None"
      and "check_ufunc_fperr E (errormask a) w_reset = (rc', w_fp)" and "0 \<le> rc'"
      and "NpyIter_Deallocate E it w_fp = (True, w_end)"
    unfolding run reduce_seed_def Let_def clr
    using that z
    by (simp add: assms(10) [symmetric] reduce_iterate_def reduce_finish_def logged_def PyErr_Occurred_def)
  show ?thesis
    using h1 h2 by auto
qed

text \<open>
  The witness reduces the empty operand of shape \<open>[3, 0]\<close> over its second axis into
  the output array at address 2, with collaborators that write the memory: without
  identity the call fails, with the identity 0 the output holds \<open>[0, 0, 0]\<close> where
  \<open>[7, 7, 7]\<close> was.
\<close>

theorem reduce_empty_reduction_witness:
  "shape (mk_array [3, 0] [0, 8] 1000) ! 1 = 0
   \<and> elements_of (W ex_empty_mem) 2 = [7, 7, 7]
   \<and> PyUFunc_ReduceWrapper (mem_ext 2 0) idle_loop
        (mk_args 1 (Some 2) None [False, True] True False None) ex_empty_mem
      = (None, \<lparr>W = (W ex_empty_mem)\<lparr>pyerr := Some (EmptyReductionError ''max'')\<rparr>,
                calls = calls ex_empty_mem @
                  [Call_NpyIter_AdvancedNew (driver_request (W ex_empty_mem)
                     (mk_args 1 (Some 2) None [False, True] True False None)),
                   Call_npy_clear_floatstatus_barrier,
                   Call_NpyIter_Deallocate 0]\<rparr>)
   \<and> pyerr (W (snd (PyUFunc_ReduceWrapper (mem_ext 2 0) idle_loop
        (mk_args 1 (Some 2) None [False, True] True False None) ex_empty_mem)))
      = Some (EmptyReductionError ''max'')
   \<and> PyUFunc_ReduceWrapper (mem_ext 2 0) idle_loop
        (mk_args 1 (Some 2) None [False, True] True False (Some 0)) ex_empty_mem
      = (Some 2, \<lparr>W = write_cells [(2000, 0), (2008, 0), (2016, 0)] (W ex_empty_mem),
                  calls = calls ex_empty_mem @
                    [Call_NpyIter_AdvancedNew (driver_request (W ex_empty_mem)
                       (mk_args 1 (Some 2) None [False, True] True False (Some 0))),
                     Call_npy_clear_floatstatus_barrier,
                     Call_PyArray_FillWithScalar 2 0,
                     Call_NpyIter_Reset 0,
                     Call_check_ufunc_fperr 0,
                     Call_NpyIter_Deallocate 0]\<rparr>)
   \<and> elements_of (write_cells [(2000, 0), (2008, 0), (2016, 0)] (W ex_empty_mem)) 2 = [0, 0, 0]"
proof -
  let ?A = "mk_args 1 (Some 2) None [False, True] True False None"
  let ?B = "mk_args 1 (Some 2) None [False, True] True False (Some 0)"
  let ?E = "mem_ext 2 0"
  let ?opnd = "mk_array [3, 0] [0, 8] 1000"
  let ?w = "W ex_empty_mem"
  let ?w_rel = "?w\<lparr>pyerr := Some (EmptyReductionError ''max'')\<rparr>"
  let ?w_end = "write_cells [(2000, 0), (2008, 0), (2016, 0)] ?w"
  have z: "shape ?opnd ! 1 = 0" by (simp add: mk_array_def)
  have e0: "elements_of ?w 2 = [7, 7, 7]"
    by (simp add: elements_of_def cells_of_def ex_empty_mem_def mk_mem_state_def mk_array_def
        cells_at_row3)
  have c2: "cells_of ?w 2 = [2000, 2008, 2016]"
    by (simp add: cells_of_def ex_empty_mem_def mk_mem_state_def mk_array_def cells_at_row3)
  have c2': "cells_of ?w_end 2 = [2000, 2008, 2016]"
    by (simp add: cells_of_def write_cells_heap ex_empty_mem_def mk_mem_state_def mk_array_def
        cells_at_row3)
  have e3: "elements_of ?w_end 2 = replicate 3 0"
    using c2' by (simp add: elements_of_def write_cells_def numeral_3_eq_3)
  have a1: "heap (W ex_empty_mem) (operand ?A) = Some ?opnd"
    and b1: "heap (W ex_empty_mem) (operand ?B) = Some ?opnd"
    by (simp_all add: ex_empty_mem_def mk_mem_state_def mk_args_def)
  have a2: "length (axis_flags ?A) = PyArray_NDIM ?opnd"
    and b2: "length (axis_flags ?B) = PyArray_NDIM ?opnd"
    by (simp_all add: mk_args_def mk_array_def PyArray_NDIM_def)
  have a3: "1 < PyArray_NDIM ?opnd" by (simp add: mk_array_def PyArray_NDIM_def)
  have a4: "axis_flags ?A ! 1" and b4: "axis_flags ?B ! 1" by (simp_all add: mk_args_def)
  have a6: "reorderable ?A \<or> length (filter id (axis_flags ?A)) \<le> 1"
    and b6: "reorderable ?B \<or> length (filter id (axis_flags ?B)) \<le> 1"
    by (simp_all add: mk_args_def)
  have a7: "wheremask ?A = None \<or> identity ?A \<noteq> None"
    and b7: "wheremask ?B = None \<or> identity ?B \<noteq> None"
    by (simp_all add: mk_args_def)
  have a8: "\<forall>p. out ?A = Some p \<longrightarrow> (\<exists>outp. heap (W ex_empty_mem) p = Some outp
        \<and> PyArray_NDIM outp = (if keepdims ?A then PyArray_NDIM ?opnd
            else PyArray_NDIM ?opnd - length (filter id (axis_flags ?A))))"
    and b8: "\<forall>p. out ?B = Some p \<longrightarrow> (\<exists>outp. heap (W ex_empty_mem) p = Some outp
        \<and> PyArray_NDIM outp = (if keepdims ?B then PyArray_NDIM ?opnd
            else PyArray_NDIM ?opnd - length (filter id (axis_flags ?B))))"
    by (simp_all add: mk_args_def ex_empty_mem_def mk_mem_state_def mk_array_def PyArray_NDIM_def)
  have a9: "NpyIter_AdvancedNew ?E (driver_request ?w ?A) ?w = (Some 0, ?w)"
    and b9: "NpyIter_AdvancedNew ?E (driver_request ?w ?B) ?w = (Some 0, ?w)"
    by (simp_all add: mem_ext_def)
  have a10: "2 = NpyIter_GetOperandArray ?E 0 ?w ! 0" by (simp add: mem_ext_def)
  have a11: "?w = npy_clear_floatstatus_barrier ?E ?w" by (simp add: mem_ext_def)
  have fa: "funcname ?A = ''max''" by (simp add: mk_args_def)
  have ha: "identity ?A = None \<and> heap ?w (operand ?A) = Some ?opnd
      \<and> NpyIter_Deallocate ?E 0 (?w\<lparr>pyerr := Some (EmptyReductionError (funcname ?A))\<rparr>)
          = (True, ?w_rel)"
    using a1 by (simp add: mk_args_def mem_ext_def)
  have hb: "identity ?B = Some 0
      \<and> PyArray_FillWithScalar ?E 2 0 ?w = (0, ?w_end) \<and> (0::int) \<le> 0
      \<and> elements_of ?w_end 2 = replicate 3 0
      \<and> NpyIter_Reset ?E 0 ?w_end = (True, ?w_end)
      \<and> NpyIter_GetIterSize ?E 0 ?w_end = prod_list (shape ?opnd)
      \<and> pyerr ?w_end = None
      \<and> check_ufunc_fperr ?E (errormask ?B) ?w_end = (0, ?w_end) \<and> (0::int) \<le> 0
      \<and> NpyIter_Deallocate ?E 0 ?w_end = (True, ?w_end)
      \<and> elements_of ?w_end (case out ?B of Some p \<Rightarrow> p | None \<Rightarrow> 2) = elements_of ?w_end 2"
    using e3 c2
    by (simp add: mk_args_def mem_ext_def mk_array_def write_cells_def ex_empty_mem_def
        mk_mem_state_def)
  note ta = reduce_empty_reduction [where loop = idle_loop and ok = True and w_rel = ?w_rel,
      OF a1 a2 a3 a4 z a6 a7 a8 a9 a10 a11, THEN conjunct1, THEN mp, OF ha]
  note tb = reduce_empty_reduction [where loop = idle_loop and v = 0 and rc = 0
      and w_fill = ?w_end and n = 3 and w_reset = ?w_end and rc' = 0 and w_fp = ?w_end
      and w_end = ?w_end,
      OF b1 b2 a3 b4 z b6 b7 b8 b9 a10 a11, THEN conjunct2, THEN mp, OF hb]
  have r1: "PyUFunc_ReduceWrapper ?E idle_loop ?A ex_empty_mem
      = (None, \<lparr>W = ?w_rel, calls = calls ex_empty_mem @
                  [Call_NpyIter_AdvancedNew (driver_request ?w ?A),
                   Call_npy_clear_floatstatus_barrier, Call_NpyIter_Deallocate 0]\<rparr>)"
    using ta [THEN conjunct1] .
  have r2: "pyerr (W (snd (PyUFunc_ReduceWrapper ?E idle_loop ?A ex_empty_mem)))
      = Some (EmptyReductionError ''max'')"
    using ta [THEN conjunct2] fa by simp
  have r3: "PyUFunc_ReduceWrapper ?E idle_loop ?B ex_empty_mem
      = (Some 2, \<lparr>W = ?w_end, calls = calls ex_empty_mem @
                    [Call_NpyIter_AdvancedNew (driver_request ?w ?B),
                     Call_npy_clear_floatstatus_barrier,
                     Call_PyArray_FillWithScalar 2 0, Call_NpyIter_Reset 0,
                     Call_check_ufunc_fperr 0, Call_NpyIter_Deallocate 0]\<rparr>)"
    using tb [THEN conjunct1] by (simp add: mk_args_def)
  have r4: "elements_of ?w_end 2 = [0, 0, 0]"
    using tb [THEN conjunct2] by (simp add: mk_args_def numeral_3_eq_3)
  show ?thesis
    by (intro conjI) (fact z e0 r1 r2 r3 r4)+
qed

subsection \<open>A single reduced axis of extent 1\<close>

lemma all_indices_valid: "idx \<in> set (all_indices shp) \<Longrightarrow> valid_index shp idx"
proof (induction shp arbitrary: idx)
  case Nil
  then show ?case by (simp add: valid_index_def)
next
  case (Cons n ns)
  then obtain i rest where i: "i < nat n" and r: "rest \<in> set (all_indices ns)"
    and idx: "idx = i # rest"
    by auto
  have "valid_index ns rest" using Cons.IH [OF r] .
  then show ?case using i idx by (simp add: valid_index_def)
qed

lemma all_indices_drop_axis:
  "k < length shp \<Longrightarrow> shp ! k = 1 \<Longrightarrow>
     all_indices (drop_axis k shp) = map (drop_axis k) (all_indices shp)"
proof (induction shp arbitrary: k)
  case Nil
  then show ?case by simp
next
  case (Cons n ns)
  show ?case
  proof (cases k)
    case 0
    then have "n = 1" using Cons.prems(2) by simp
    then show ?thesis using 0 by (simp add: drop_axis_def comp_def)
  next
    case (Suc j)
    then have j: "j < length ns" "ns ! j = 1" using Cons.prems by simp_all
    have ih: "all_indices (take j ns @ drop (Suc j) ns) = map (drop_axis j) (all_indices ns)"
      using Cons.IH [OF j] by (simp add: drop_axis_def)
    show ?thesis
      using Suc ih by (simp add: drop_axis_def map_concat comp_def)
  qed
qed

text \<open>
  The view that the seeder builds over an operand whose one reduced axis has extent 1
  has the operand's cells, in the operand's order.
\<close>

lemma view_cells_unit_axis:
  assumes "k < length shp" and "length strd = length shp" and "shp ! k = 1"
  shows "cells_at (if kd then shp else drop_axis k shp)
           (if kd then strd[k := 0] else drop_axis k strd) dat
         = cells_at shp strd dat"
proof -
  have z: "idx ! k = 0 \<and> length idx = length strd" if "idx \<in> set (all_indices shp)" for idx
    using valid_index_unit_axis [OF all_indices_valid [OF that] assms(1,3)]
      all_indices_valid [OF that] assms(2)
    by (simp add: valid_index_def)
  have ks: "k < length strd" using assms(1,2) by simp
  show ?thesis
  proof (cases kd)
    case True
    have "offset (strd[k := 0]) idx = offset strd idx" if "idx \<in> set (all_indices shp)" for idx
      using offset_update_zero [OF ks] z [OF that] by simp
    then show ?thesis using True by (simp add: cells_at_def)
  next
    case False
    have "offset (drop_axis k strd) (drop_axis k idx) = offset strd idx"
      if "idx \<in> set (all_indices shp)" for idx
      using offset_drop_axis [OF ks] z [OF that] by simp
    then show ?thesis
      using False by (simp add: cells_at_def all_indices_drop_axis [OF assms(1,3)] comp_def)
  qed
qed

lemma filter_id_single:
  assumes "k < length fl" and "fl ! k" and "\<forall>j<length fl. j \<noteq> k \<longrightarrow> \<not> fl ! j"
  shows "length (filter id fl) = 1"
proof -
  have a: "filter (\<lambda>i. fl ! i) [0..<k] = []"
    using assms(1,3) by (auto simp: filter_empty_conv)
  have b: "filter (\<lambda>i. fl ! i) [Suc k..<length fl] = []"
    using assms(3) by (auto simp: filter_empty_conv)
  have "filter (\<lambda>i. fl ! i) [0..<length fl] = [k]"
    using upt_split_at [OF assms(1)] a b assms(2) by simp
  then show ?thesis using filter_nth_upt [of fl] by simp
qed

text \<open>
  C5, amended. Take a reduction without identity and without where-mask over exactly one
  flagged axis, of extent 1, of an operand with non-negative extents, one flag and one
  stride per axis and fewer than \<open>2^31\<close> elements, in a call that passes the check of the output
  array's rank, and let every collaborator succeed: the iterator \<open>it\<close> is constructed
  with the result \<open>r\<close> as its first operand and the operand's header is in place when
  the seeder reads it, the view is constructed, the copy and the reset succeed, the
  iterator's size is the number of elements of the operand, the callback (for an operand
  that is not empty) succeeds, no error is pending, and the floating-point check and the
  release succeed.

  Then the seeder builds its view with the operand's extents and strides, the reduced
  axis dropped or, under \<open>keepdims\<close>, kept with stride 0; this view has exactly the
  operand's cells, in the operand's order. The skip count that the seeder produces and
  the driver hands to the callback is the number of elements of the operand, which is
  also the product of the extents that are not reduced: 1 for an operand with a single
  element, and 0 only for an empty operand, when the callback is not called. The driver
  returns the output array if one was given and \<open>r\<close> otherwise.

  As to the element data: if the view constructor gives the view the header the seeder
  asked for, the operand's storage holds when the copy starts what it held at entry, the
  copy leaves in \<open>r\<close> the elements of the view, the callback (told to skip every
  element) and the calls around it leave the elements of \<open>r\<close> alone, and the returned
  array holds after the release what \<open>r\<close> held, then the elements of the returned
  array are the elements of the operand, in the operand's order.
\<close>

theorem reduce_unit_axis:
  assumes "heap (W s) (operand a) = Some opnd"
    and "length (axis_flags a) = PyArray_NDIM opnd"
    and "length (strides opnd) = PyArray_NDIM opnd"
    and "k < PyArray_NDIM opnd"
    and "axis_flags a ! k"
    and "\<forall>j<PyArray_NDIM opnd. j \<noteq> k \<longrightarrow> \<not> axis_flags a ! j"
    and "shape opnd ! k = 1"
    and "\<forall>x\<in>set (shape opnd). 0 \<le> x"
    and "prod_list (shape opnd) < 2 ^ 31"
    and "identity a = None"
    and "wheremask a = None"
    and "\<forall>p. out a = Some p \<longrightarrow> (\<exists>outp. heap (W s) p = Some outp \<and> PyArray_NDIM outp =
           (if keepdims a then PyArray_NDIM opnd else PyArray_NDIM opnd - 1))"
    and "NpyIter_AdvancedNew E (driver_request (W s) a) (W s) = (Some it, w_new)"
    and "r = NpyIter_GetOperandArray E it w_new ! 0"
    and "api = NpyIter_IterationNeedsAPI E it w_new"
    and "w_clr = npy_clear_floatstatus_barrier E w_new"
    and "heap w_clr (operand a) = Some opnd"
    and "shp = (if keepdims a then shape opnd else drop_axis k (shape opnd))"
    and "strd = (if keepdims a then (strides opnd)[k := 0] else drop_axis k (strides opnd))"
    and "PyArray_NewFromDescr E (descr opnd) (length shp) shp strd (data opnd) {} w_clr
           = (Some view, w_view)"
    and "PyArray_CopyInto E r view w_view = (rc, w_copy)"
    and "0 \<le> rc"
    and "NpyIter_Reset E it (Py_DECREF E view w_copy) = (True, w_reset)"
    and "NpyIter_GetIterSize E it w_reset = prod_list (shape opnd)"
    and "prod_list (shape opnd) \<noteq> 0 \<longrightarrow>
           NpyIter_GetIterNext E it w_reset = (True, w_next)
           \<and> loop it api (prod_list (shape opnd)) (loop_data a) w_next = (rc_loop, w_loop)
           \<and> 0 \<le> rc_loop"
    and "prod_list (shape opnd) = 0 \<longrightarrow> w_loop = w_reset"
    and "pyerr w_loop = None"
    and "check_ufunc_fperr E (errormask a) w_loop = (rc_fp, w_fp)"
    and "0 \<le> rc_fp"
    and "NpyIter_Deallocate E it w_fp = (True, w_end)"
    and "q = (case out a of Some p \<Rightarrow> p | None \<Rightarrow> r)"
  shows "PyUFunc_ReduceWrapper E loop a s =
           (Some q,
            \<lparr>W = w_end,
             calls = calls s @
               [Call_NpyIter_AdvancedNew (driver_request (W s) a),
                Call_npy_clear_floatstatus_barrier,
                Call_PyArray_NewFromDescr (descr opnd) (length shp) shp strd (data opnd) {},
                Call_PyArray_CopyInto r view,
                Call_Py_DECREF view,
                Call_NpyIter_Reset it] @
               (if prod_list (shape opnd) = 0 then []
                else [Call_NpyIter_GetIterNext it,
                      Call_loop it api (prod_list (shape opnd)) (loop_data a)]) @
               [Call_check_ufunc_fperr (errormask a),
                Call_NpyIter_Deallocate it]\<rparr>)
         \<and> prod_list (shape opnd) = prod_list (non_reduced_extents (axis_flags a) (shape opnd))
         \<and> cells_at shp strd (data opnd) = cells_at (shape opnd) (strides opnd) (data opnd)
         \<and> (heap w_view view = Some \<lparr>shape = shp, strides = strd, descr = descr opnd,
                                       data = data opnd, flags = {}\<rparr>
              \<and> elements_at w_view (shape opnd) (strides opnd) (data opnd)
                  = elements_of (W s) (operand a)
              \<and> elements_of w_copy r = elements_of w_view view
              \<and> elements_of w_loop r = elements_of w_copy r
              \<and> elements_of w_end q = elements_of w_loop r
            \<longrightarrow> elements_of w_end q = elements_of (W s) (operand a))"
proof -
  let ?req = "driver_request (W s) a"
  let ?n = "prod_list (shape opnd)"
  let ?c1 = "calls s @ [Call_NpyIter_AdvancedNew ?req]"
  let ?s1 = "\<lparr>W = w_new, calls = ?c1\<rparr>"
  let ?c2 = "?c1 @ [Call_npy_clear_floatstatus_barrier]"
  let ?s2 = "\<lparr>W = w_clr, calls = ?c2\<rparr>"
  let ?c3 = "?c2 @ [Call_PyArray_NewFromDescr (descr opnd) (length shp) shp strd (data opnd) {},
                    Call_PyArray_CopyInto r view, Call_Py_DECREF view]"
  let ?s3 = "\<lparr>W = Py_DECREF E view w_copy, calls = ?c3\<rparr>"
  have nd: "PyArray_NDIM opnd = length (shape opnd)" by (simp add: PyArray_NDIM_def)
  have kf: "k < length (axis_flags a)" using assms(2,4) by simp
  have one: "length (filter id (axis_flags a)) = 1"
    using filter_id_single [OF kf assms(5)] assms(2,6) by simp
  have rq: "?req = reduce_request (W s) a
      (fst (result_axes_loop (axis_flags a) (keepdims a) [0..<PyArray_NDIM opnd] ([], 0)))"
    using assms(1) by (simp add: driver_request_def)
  have g1: "reorderable a \<or> length (filter id (axis_flags a)) \<le> 1" using one by simp
  have g2: "wheremask a = None \<or> identity a \<noteq> None" using assms(11) by simp
  have g3: "\<forall>p. out a = Some p \<longrightarrow> (\<exists>outp. heap (W s) p = Some outp \<and> PyArray_NDIM outp =
           (if keepdims a then PyArray_NDIM opnd
            else PyArray_NDIM opnd - length (filter id (axis_flags a))))"
    using assms(12) unfolding one by simp
  have l: "logged (Call_NpyIter_AdvancedNew ?req) (NpyIter_AdvancedNew E ?req) s = (Some it, ?s1)"
    using assms(13) by (simp add: logged_def)
  have run: "PyUFunc_ReduceWrapper E loop a s = reduce_seed E loop a it ?s1"
    using reduce_past_checks [OF assms(1,2) g1 g2 g3 rq, of E loop] l by simp
  have clr: "logged_unit Call_npy_clear_floatstatus_barrier (npy_clear_floatstatus_barrier E) ?s1
      = ?s2"
    using assms(16) by (simp add: logged_unit_def)
  have hp: "heap (W ?s2) (operand a) = Some opnd" using assms(17) by simp
  have nf: "PyArray_NewFromDescr E (descr opnd) (length shp) shp strd (data opnd) {} (W ?s2)
      = (Some view, w_view)"
    using assms(20) by simp
  note sr = seeder_unit_axis_run [OF hp assms(2,3,4,5,6,7,8,9,18,19) nf assms(21,22),
      of "funcname a"]
  have sd: "PyArray_CopyInitialReduceValues E r (operand a) (axis_flags a) (funcname a)
      (keepdims a) ?s2 = (?n, ?s3)"
    using sr [THEN conjunct1] by simp
  have pr: "?n = prod_list (non_reduced_extents (axis_flags a) (shape opnd))"
    using sr [THEN conjunct2, THEN conjunct1] .
  have n0: "0 \<le> ?n" using assms(8) by (rule prod_list_nonneg_int)
  have seed: "reduce_seed E loop a it ?s1 = reduce_iterate E loop a it r api ?n ?s3"
    unfolding reduce_seed_def Let_def clr
    using assms(10) sd n0
    by (simp add: assms(14) [symmetric] assms(15) [symmetric])
  have it: "reduce_iterate E loop a it r api ?n ?s3 =
      (Some q,
       \<lparr>W = w_end,
        calls = ?c3 @ [Call_NpyIter_Reset it] @
          (if ?n = 0 then []
           else [Call_NpyIter_GetIterNext it, Call_loop it api ?n (loop_data a)]) @
          [Call_check_ufunc_fperr (errormask a), Call_NpyIter_Deallocate it]\<rparr>)"
  proof (cases "?n = 0")
    case True
    then have "w_loop = w_reset" using assms(26) by simp
    then show ?thesis
      using True assms(23,24,27,28,29,30,31)
      by (simp add: reduce_iterate_def reduce_finish_def logged_def PyErr_Occurred_def)
  next
    case False
    then have "NpyIter_GetIterNext E it w_reset = (True, w_next)"
      and "loop it api ?n (loop_data a) w_next = (rc_loop, w_loop)" and "0 \<le> rc_loop"
      using assms(25) by simp_all
    then show ?thesis
      using False assms(23,24,27,28,29,30,31)
      by (simp add: reduce_iterate_def reduce_finish_def logged_def PyErr_Occurred_def)
  qed
  have res: "PyUFunc_ReduceWrapper E loop a s =
           (Some q,
            \<lparr>W = w_end,
             calls = calls s @
               [Call_NpyIter_AdvancedNew (driver_request (W s) a),
                Call_npy_clear_floatstatus_barrier,
                Call_PyArray_NewFromDescr (descr opnd) (length shp) shp strd (data opnd) {},
                Call_PyArray_CopyInto r view,
                Call_Py_DECREF view,
                Call_NpyIter_Reset it] @
               (if prod_list (shape opnd) = 0 then []
                else [Call_NpyIter_GetIterNext it,
                      Call_loop it api (prod_list (shape opnd)) (loop_data a)]) @
               [Call_check_ufunc_fperr (errormask a),
                Call_NpyIter_Deallocate it]\<rparr>)"
    unfolding run seed it by simp
  have ksh: "k < length (shape opnd)" using assms(4) nd by simp
  have ls: "length (strides opnd) = length (shape opnd)" using assms(3) nd by simp
  have cells: "cells_at shp strd (data opnd) = cells_at (shape opnd) (strides opnd) (data opnd)"
    using view_cells_unit_axis [OF ksh ls assms(7), of "keepdims a" "data opnd"] assms(18,19)
    by simp
  have el: "elements_of w_end q = elements_of (W s) (operand a)"
    if "heap w_view view = Some \<lparr>shape = shp, strides = strd, descr = descr opnd,
                                   data = data opnd, flags = {}\<rparr>"
      and "elements_at w_view (shape opnd) (strides opnd) (data opnd)
             = elements_of (W s) (operand a)"
      and "elements_of w_copy r = elements_of w_view view"
      and "elements_of w_loop r = elements_of w_copy r"
      and "elements_of w_end q = elements_of w_loop r"
  proof -
    have "elements_of w_view view = elements_at w_view shp strd (data opnd)"
      using that(1) by (simp add: elements_of_def cells_of_def elements_at_def)
    also have "\<dots> = elements_at w_view (shape opnd) (strides opnd) (data opnd)"
      using cells by (simp add: elements_at_def)
    finally show ?thesis using that(2,3,4,5) by simp
  qed
  show ?thesis
    using res pr cells el by blast
qed

text \<open>
  The witness reduces the column \<open>[5, 2, 9]\<close> of shape \<open>[3, 1]\<close> over its second axis
  into the output array at address 2, with collaborators that write the memory: the
  callback is handed the skip count 3, and the output holds \<open>[5, 2, 9]\<close> where
  \<open>[7, 7, 7]\<close> was.
\<close>

theorem reduce_unit_axis_witness:
  "shape (mk_array [3, 1] [8, 8] 1000) ! 1 = 1
   \<and> elements_of (W ex_col_mem) 1 = [5, 2, 9]
   \<and> elements_of (W ex_col_mem) 2 = [7, 7, 7]
   \<and> fst (PyUFunc_ReduceWrapper (mem_ext 2 3) idle_loop
        (mk_args 1 (Some 2) None [False, True] True False None) ex_col_mem) = Some 2
   \<and> calls (snd (PyUFunc_ReduceWrapper (mem_ext 2 3) idle_loop
        (mk_args 1 (Some 2) None [False, True] True False None) ex_col_mem))
      = [Call_NpyIter_AdvancedNew (driver_request (W ex_col_mem)
           (mk_args 1 (Some 2) None [False, True] True False None)),
         Call_npy_clear_floatstatus_barrier,
         Call_PyArray_NewFromDescr 7 1 [3] [8] 1000 {},
         Call_PyArray_CopyInto 2 99,
         Call_Py_DECREF 99,
         Call_NpyIter_Reset 0,
         Call_NpyIter_GetIterNext 0,
         Call_loop 0 False 3 0,
         Call_check_ufunc_fperr 0,
         Call_NpyIter_Deallocate 0]
   \<and> prod_list (non_reduced_extents [False, True] [3, 1]) = 3
   \<and> cells_at [3] [8] 1000 = cells_at [3, 1] [8, 8] 1000
   \<and> elements_of (W (snd (PyUFunc_ReduceWrapper (mem_ext 2 3) idle_loop
        (mk_args 1 (Some 2) None [False, True] True False None) ex_col_mem))) 2 = [5, 2, 9]"
proof -
  let ?A = "mk_args 1 (Some 2) None [False, True] True False None"
  let ?E = "mem_ext 2 3"
  let ?opnd = "mk_array [3, 1] [8, 8] 1000"
  let ?w = "W ex_col_mem"
  let ?w_view = "?w\<lparr>heap := (heap ?w)(99 \<mapsto> mk_array [3] [8] 1000)\<rparr>"
  let ?w_copy = "write_cells [(2000, 5), (2008, 2), (2016, 9)] ?w_view"
  let ?R = "PyUFunc_ReduceWrapper ?E idle_loop ?A ex_col_mem"
  have u: "shape ?opnd ! 1 = 1" by (simp add: mk_array_def)
  have e1: "elements_of ?w 1 = [5, 2, 9]"
    by (simp add: elements_of_def cells_of_def ex_col_mem_def mk_mem_state_def mk_array_def
        cells_at_col3)
  have e2: "elements_of ?w 2 = [7, 7, 7]"
    by (simp add: elements_of_def cells_of_def ex_col_mem_def mk_mem_state_def mk_array_def
        cells_at_row3)
  have ev: "elements_of ?w_view 99 = [5, 2, 9]"
    by (simp add: elements_of_def cells_of_def ex_col_mem_def mk_mem_state_def mk_array_def
        cells_at_row3)
  have cv: "cells_of ?w_view 2 = [2000, 2008, 2016]"
    by (simp add: cells_of_def ex_col_mem_def mk_mem_state_def mk_array_def cells_at_row3)
  have ec: "elements_of ?w_copy 2 = [5, 2, 9]"
    by (simp add: elements_of_def cells_of_def write_cells_def ex_col_mem_def mk_mem_state_def
        mk_array_def cells_at_row3)
  have ea: "elements_at ?w_view (shape ?opnd) (strides ?opnd) (data ?opnd) = [5, 2, 9]"
    by (simp add: elements_at_def ex_col_mem_def mk_mem_state_def mk_array_def cells_at_col3)
  have a1: "heap (W ex_col_mem) (operand ?A) = Some ?opnd"
    by (simp add: ex_col_mem_def mk_mem_state_def mk_args_def)
  have a2: "length (axis_flags ?A) = PyArray_NDIM ?opnd"
    by (simp add: mk_args_def mk_array_def PyArray_NDIM_def)
  have a3: "length (strides ?opnd) = PyArray_NDIM ?opnd"
    by (simp add: mk_array_def PyArray_NDIM_def)
  have a4: "1 < PyArray_NDIM ?opnd" by (simp add: mk_array_def PyArray_NDIM_def)
  have a5: "axis_flags ?A ! 1" by (simp add: mk_args_def)
  have a6: "\<forall>j<PyArray_NDIM ?opnd. j \<noteq> 1 \<longrightarrow> \<not> axis_flags ?A ! j"
    by (simp add: mk_args_def mk_array_def PyArray_NDIM_def less_Suc_eq)
  have a8: "\<forall>x\<in>set (shape ?opnd). 0 \<le> x" by (simp add: mk_array_def)
  have a9: "prod_list (shape ?opnd) < 2 ^ 31" by (simp add: mk_array_def)
  have a10: "identity ?A = None" and a11: "wheremask ?A = None" by (simp_all add: mk_args_def)
  have a12: "\<forall>p. out ?A = Some p \<longrightarrow> (\<exists>outp. heap (W ex_col_mem) p = Some outp
        \<and> PyArray_NDIM outp = (if keepdims ?A then PyArray_NDIM ?opnd
            else PyArray_NDIM ?opnd - 1))"
    by (simp add: mk_args_def ex_col_mem_def mk_mem_state_def mk_array_def PyArray_NDIM_def)
  have a13: "NpyIter_AdvancedNew ?E (driver_request ?w ?A) ?w = (Some 0, ?w)"
    by (simp add: mem_ext_def)
  have a14: "2 = NpyIter_GetOperandArray ?E 0 ?w ! 0" by (simp add: mem_ext_def)
  have a15: "False = NpyIter_IterationNeedsAPI ?E 0 ?w" by (simp add: mem_ext_def)
  have a16: "?w = npy_clear_floatstatus_barrier ?E ?w" by (simp add: mem_ext_def)
  have a18: "[3] = (if keepdims ?A then shape ?opnd else drop_axis 1 (shape ?opnd))"
    by (simp add: mk_args_def mk_array_def drop_axis_def)
  have a19: "[8] = (if keepdims ?A then (strides ?opnd)[1 := 0]
      else drop_axis 1 (strides ?opnd))"
    by (simp add: mk_args_def mk_array_def drop_axis_def)
  have a20: "PyArray_NewFromDescr ?E (descr ?opnd) (length [3::int]) [3] [8] (data ?opnd) {} ?w
      = (Some 99, ?w_view)"
    by (simp add: mem_ext_def mk_array_def)
  have a21: "PyArray_CopyInto ?E 2 99 ?w_view = (0, ?w_copy)"
    using ev cv by (simp add: mem_ext_def)
  have a22: "(0::int) \<le> 0" by simp
  have a23: "NpyIter_Reset ?E 0 (Py_DECREF ?E 99 ?w_copy) = (True, ?w_copy)"
    by (simp add: mem_ext_def)
  have a24: "NpyIter_GetIterSize ?E 0 ?w_copy = prod_list (shape ?opnd)"
    by (simp add: mem_ext_def mk_array_def)
  have a25: "prod_list (shape ?opnd) \<noteq> 0 \<longrightarrow>
           NpyIter_GetIterNext ?E 0 ?w_copy = (True, ?w_copy)
           \<and> idle_loop 0 False (prod_list (shape ?opnd)) (loop_data ?A) ?w_copy = (0, ?w_copy)
           \<and> (0::int) \<le> 0"
    by (simp add: mem_ext_def idle_loop_def)
  have a26: "prod_list (shape ?opnd) = 0 \<longrightarrow> ?w_copy = ?w_copy" by simp
  have a27: "pyerr ?w_copy = None"
    by (simp add: write_cells_def ex_col_mem_def mk_mem_state_def)
  have a28: "check_ufunc_fperr ?E (errormask ?A) ?w_copy = (0, ?w_copy)"
    by (simp add: mem_ext_def)
  have a30: "NpyIter_Deallocate ?E 0 ?w_copy = (True, ?w_copy)" by (simp add: mem_ext_def)
  have a31: "2 = (case out ?A of Some p \<Rightarrow> p | None \<Rightarrow> 2)" by (simp add: mk_args_def)
  have hy: "heap ?w_view 99 = Some \<lparr>shape = [3], strides = [8], descr = descr ?opnd,
                                     data = data ?opnd, flags = {}\<rparr>
      \<and> elements_at ?w_view (shape ?opnd) (strides ?opnd) (data ?opnd)
          = elements_of (W ex_col_mem) (operand ?A)
      \<and> elements_of ?w_copy 2 = elements_of ?w_view 99
      \<and> elements_of ?w_copy 2 = elements_of ?w_copy 2
      \<and> elements_of ?w_copy 2 = elements_of ?w_copy 2"
    using ea e1 ec ev by (simp add: mk_array_def mk_args_def)
  note t = reduce_unit_axis [where loop = idle_loop and w_next = ?w_copy and rc_loop = 0
      and w_loop = ?w_copy,
      OF a1 a2 a3 a4 a5 a6 u a8 a9 a10 a11 a12 a13 a14 a15 a16 a1 a18 a19 a20 a21 a22 a23 a24
        a25 a26 a27 a28 a22 a30 a31]
  have run: "?R = (Some 2, \<lparr>W = ?w_copy, calls = calls ex_col_mem @
      [Call_NpyIter_AdvancedNew (driver_request ?w ?A),
       Call_npy_clear_floatstatus_barrier,
       Call_PyArray_NewFromDescr 7 1 [3] [8] 1000 {},
       Call_PyArray_CopyInto 2 99, Call_Py_DECREF 99, Call_NpyIter_Reset 0,
       Call_NpyIter_GetIterNext 0, Call_loop 0 False 3 0,
       Call_check_ufunc_fperr 0, Call_NpyIter_Deallocate 0]\<rparr>)"
    using t [THEN conjunct1] by (simp add: mk_array_def mk_args_def)
  have r1: "fst ?R = Some 2" using run by simp
  have r2: "calls (snd ?R) =
      [Call_NpyIter_AdvancedNew (driver_request ?w ?A),
       Call_npy_clear_floatstatus_barrier,
       Call_PyArray_NewFromDescr 7 1 [3] [8] 1000 {},
       Call_PyArray_CopyInto 2 99, Call_Py_DECREF 99, Call_NpyIter_Reset 0,
       Call_NpyIter_GetIterNext 0, Call_loop 0 False 3 0,
       Call_check_ufunc_fperr 0, Call_NpyIter_Deallocate 0]"
    using run by (simp add: ex_col_mem_def mk_mem_state_def)
  have r3: "prod_list (non_reduced_extents [False, True] [3, 1]) = 3"
    using t [THEN conjunct2, THEN conjunct1] by (simp add: mk_array_def mk_args_def)
  have r4: "cells_at [3] [8] 1000 = cells_at [3, 1] [8, 8] 1000"
    using t [THEN conjunct2, THEN conjunct2, THEN conjunct1] by (simp add: mk_array_def)
  have "elements_of ?w_copy 2 = elements_of (W ex_col_mem) (operand ?A)"
    using t [THEN conjunct2, THEN conjunct2, THEN conjunct2, THEN mp, OF hy] .
  then have r5: "elements_of (W (snd ?R)) 2 = [5, 2, 9]"
    using run e1 by (simp add: mk_args_def)
  show ?thesis
    by (intro conjI) (fact u e1 e2 r1 r2 r3 r4 r5)+
qed

end
